theory Spec2Isabelle
  imports Complex_Main "HOL-Library.Sublist"
begin

section \<open>Formatter\<close>

text \<open>
  \<^verbatim>\<open>formatCurrency\<close> of \<^verbatim>\<open>static/js/dashboard.js\<close>. A JavaScript number is modelled by
  its exact value, a rational (every finite double is one); \<^verbatim>\<open>undefined\<close>, \<^verbatim>\<open>null\<close> and
  \<^verbatim>\<open>NaN\<close>, the arguments that are falsy and different from 0, are \<open>NotANumber\<close>.
  The comparisons of the source are exact on doubles, so sign and magnitude class are
  those of the program. \<^verbatim>\<open>toFixed\<close> rounds the exact quotient half up; the program
  rounds the double nearest to the quotient, which can differ in the last digit when the
  quotient lies on a rounding tie.
\<close>

definition digit_char :: "nat \<Rightarrow> char" where
  "digit_char n = ''0123456789'' ! n"

function show_nat :: "nat \<Rightarrow> string" where
  "show_nat n = (if n < 10 then [digit_char n] else show_nat (n div 10) @ [digit_char (n mod 10)])"
  by pat_completeness auto
termination by (relation "measure id") auto

declare show_nat.simps [simp del]

primrec frac_digits :: "nat \<Rightarrow> nat \<Rightarrow> string" where
  "frac_digits 0 n = []"
| "frac_digits (Suc d) n = frac_digits d (n div 10) @ [digit_char (n mod 10)]"

definition toFixed :: "nat \<Rightarrow> rat \<Rightarrow> string" where
  "toFixed d x = (let n = nat \<lfloor>x * 10 ^ d + 1 / 2\<rfloor> in
     if d = 0 then show_nat n
     else show_nat (n div 10 ^ d) @ [CHR 0x2E] @ frac_digits d n)"

datatype js_number = NotANumber | Num rat

definition sign_prefix :: "rat \<Rightarrow> string" where
  "sign_prefix v = (if v < 0 then ''-'' else if v > 0 then ''+'' else '''')"

fun formatCurrency :: "js_number \<Rightarrow> string" where
  "formatCurrency NotANumber = ''Rs.0''"
| "formatCurrency (Num v) =
    (let sign = sign_prefix v; a = \<bar>v\<bar>
     in if a \<ge> 10000000 then sign @ ''Rs.'' @ toFixed 2 (a / 10000000) @ '' Cr''
        else if a \<ge> 100000 then sign @ ''Rs.'' @ toFixed 2 (a / 100000) @ '' Lakh''
        else if a \<ge> 1000 then sign @ ''Rs.'' @ toFixed 2 (a / 1000) @ '' K''
        else sign @ ''Rs.'' @ toFixed 0 a)"


section \<open>Data model\<close>

text \<open>
  JSON values as the program receives them. \<open>JNull\<close> stands for \<^verbatim>\<open>null\<close>; a property that
  is \<^verbatim>\<open>undefined\<close> is a key without entry. \<open>truthy\<close> is JavaScript's truthiness.
\<close>

datatype jv = JNull | JNum int | JStr string | JArr "jv list" | JObj "(string \<times> jv) list"

type_synonym obj = "(string \<times> jv) list"

fun truthy :: "jv \<Rightarrow> bool" where
  "truthy JNull = False"
| "truthy (JNum n) = (n \<noteq> 0)"
| "truthy (JStr s) = (s \<noteq> [])"
| "truthy (JArr _) = True"
| "truthy (JObj _) = True"

definition has_field :: "obj \<Rightarrow> string \<Rightarrow> bool" where
  "has_field d k = (case map_of d k of Some v \<Rightarrow> truthy v | None \<Rightarrow> False)"

definition jopt :: "string option \<Rightarrow> jv" where
  "jopt v = (case v of None \<Rightarrow> JNull | Some s \<Rightarrow> JStr s)"

text \<open>
  The form controls the program reads and writes through jQuery. A single select holds
  its option values and the selected one (\<^verbatim>\<open>.val()\<close> is \<^verbatim>\<open>null\<close> when none is
  selected); a multi-select holds its option values and the selected ones.
\<close>

datatype sel_id = PeriodType | Year | Fy | Quarter
  | ComparisonType | Period1 | Period2 | ComparisonDimension

datatype msel_id = States | Districts | Rbms | Bdms | Branches | Brands
  | CompRbms | CompStates | CompBrands | CompBranches

record select =
  opts :: "string list"
  val :: "string option"

record mselect =
  mopts :: "string list"
  mval :: "string list"

text \<open>\<^verbatim>\<open>$el.val(v)\<close> on a single select: the option with that value is selected, and none
  is when no option has it.\<close>

definition set_val :: "string \<Rightarrow> select \<Rightarrow> select" where
  "set_val v c = c\<lparr>val := (if v \<in> set (opts c) then Some v else None)\<rparr>"

text \<open>\<^verbatim>\<open>$el.val(vs)\<close> on a multi-select selects the options whose value is listed;
  \<^verbatim>\<open>$el.val(null)\<close> clears the selection.\<close>

definition set_mval :: "string list \<Rightarrow> mselect \<Rightarrow> mselect" where
  "set_mval vs c = c\<lparr>mval := filter (\<lambda>o'. o' \<in> set vs) (mopts c)\<rparr>"

definition clear_mval :: "mselect \<Rightarrow> mselect" where
  "clear_mval c = c\<lparr>mval := []\<rparr>"

record filter_selection =
  period_type :: "string option"
  year :: "string option"
  fy :: "string option"
  quarter :: "string option"
  states :: "string list"
  districts :: "string list"
  rbms :: "string list"
  bdms :: "string list"
  branches :: "string list"
  brands :: "string list"

record filter_options =
  o_years :: "string list"
  o_financial_years :: "string list"
  o_quarters :: "string list"
  o_states :: "string list"
  o_districts :: "string list"
  o_rbms :: "string list"
  o_bdms :: "string list"
  o_branches :: "string list"
  o_brands :: "string list"

text \<open>The body of a successful \<^verbatim>\<open>/api/dashboard\<close> response; \<open>charts\<close> is the
  ChartSeriesBundle, from chart type to that chart's series object.\<close>

record dashboard_data =
  kpis :: obj
  insights :: "obj option"
  charts :: "(string \<times> obj) list"
  table_rows :: "jv list"
  total_records :: int

text \<open>The body of a successful \<^verbatim>\<open>/api/comparison\<close> response: \<open>cmp_chart\<close> is
  \<^verbatim>\<open>data.chart\<close> (its labels and the rest), \<open>cmp_rows\<close> is \<^verbatim>\<open>data.comparisons\<close>.\<close>

record comparison_data =
  cmp_body :: obj
  cmp_chart :: "(string list \<times> obj) option"
  cmp_rows :: "jv list"

datatype payload = PFilters filter_selection | PComparison obj | PLoad bool

datatype endpoint = ApiLoad | ApiDashboard | ApiInsights | ApiCharts string | ApiMap
  | ApiComparison | ApiExport

text \<open>
  What the program does when a request settles is the rest of the \<^verbatim>\<open>async\<close> function
  that issued it. \<open>KLoad force retryCount timeoutId\<close> is \<^verbatim>\<open>loadData\<close>;
  \<open>KDashboard filters after\<close> is \<^verbatim>\<open>applyFilters\<close>, with \<open>after = Some message\<close> when
  \<^verbatim>\<open>loadData\<close> awaits it.
\<close>

datatype kont = KLoad bool nat nat | KDashboard filter_selection "string option"
  | KInsights | KChart string | KMap | KComparison | KExport

fun endpoint_of :: "kont \<Rightarrow> endpoint" where
  "endpoint_of (KLoad _ _ _) = ApiLoad"
| "endpoint_of (KDashboard _ _) = ApiDashboard"
| "endpoint_of KInsights = ApiInsights"
| "endpoint_of (KChart ct) = ApiCharts ct"
| "endpoint_of KMap = ApiMap"
| "endpoint_of KComparison = ApiComparison"
| "endpoint_of KExport = ApiExport"

type_synonym request = "nat \<times> payload \<times> kont"

text \<open>
  How a request settles. \<open>Failed\<close>: \<^verbatim>\<open>fetch\<close> rejects (no response). \<open>Refused\<close>: a JSON
  body whose \<^verbatim>\<open>success\<close> is falsy, with its \<^verbatim>\<open>error\<close> text if any. The others are bodies
  with \<^verbatim>\<open>success\<close> true, and for \<^verbatim>\<open>/api/export\<close> the two values of \<^verbatim>\<open>response.ok\<close>.
\<close>

datatype response = Failed string | Refused "string option"
  | LoadOk string filter_options
  | DashboardOk dashboard_data
  | InsightsOk obj
  | ChartOk "obj option"
  | MapOk "obj option"
  | ComparisonOk comparison_data
  | ExportOk string
  | ExportNotOk

datatype timer_action = RunApplyFilters | RunLoadComparison | AbortLoad nat | ResumeLoad bool nat

type_synonym timer = "nat \<times> nat \<times> timer_action"

datatype elem = LoadingOverlay | WelcomeScreen | DashboardContent
  | YearSelect | FySelect | QuarterSelect
  | SingleFilters | ComparisonFilters | SingleView | ComparisonView
  | ChartDisplay | MapContainer | ChartLoading

datatype loading_msg = MsgConnecting | MsgStage nat | MsgRetrying nat

datatype load_error = TimedOut | ErrorMessage string

datatype toast = ToastLoaded string | ToastLoadFailed load_error | ToastInsights
  | ToastReset | ToastExported | ToastExportFailed



datatype chart_display = Blank | Plotted string obj | NoDataAvailable | NoDataForChart
  | ErrorLoadingChart

datatype comparison_chart = NoComparisonChart | ComparisonPlot "string list" obj
  | NoComparisonData

text \<open>
  The state: the module's variables, the part of the page the program writes, and the
  browser's side (clock, pending timers, requests in flight, the log of every request
  issued, and the continuations of aborted requests that wait for the end of the current
  task). \<open>applyCalls\<close> is a ghost counter of the entries into \<^verbatim>\<open>applyFilters\<close>; the program
  has no such variable and nothing reads it.
  A toast is kept as an entry of \<open>toasts\<close>; its show and hide timers are not modelled.
\<close>

record state =
  dataLoaded :: bool
  filterOptions :: "filter_options option"
  currentMode :: string
  activeChart :: string
  filterDebounceTimer :: "nat option"
  pendingRequest :: "nat option"
  indiaMap :: bool
  cachedChartData :: "(string \<times> obj) list"
  sels :: "sel_id \<Rightarrow> select"
  msels :: "msel_id \<Rightarrow> mselect"
  hidden :: "elem \<Rightarrow> bool"
  filterLoading :: bool
  comparisonLoading :: bool
  refreshDisabled :: bool
  loadingMessage :: loading_msg
  kpiPanel :: "obj option"
  insightsPanel :: "obj option"
  tablePanel :: "(jv list \<times> int) option"
  statusBar :: "filter_selection option"
  chartDisplay :: chart_display
  mapMarkers :: "jv list"
  comparisonTitle :: "(string option \<times> string option) option"
  comparisonSubtitle :: "(string \<times> string option) option"
  comparisonKpis :: "obj option"
  comparisonChart :: comparison_chart
  comparisonTable :: "jv list option"
  toasts :: "toast list"
  downloads :: "string list"
  now :: nat
  timers :: "timer list"
  nextTimer :: nat
  inflight :: "request list"
  nextReq :: nat
  fetches :: "(endpoint \<times> payload) list"
  microtasks :: "request list"
  applyCalls :: nat


section \<open>Small helpers of the page\<close>

definition showToast :: "toast \<Rightarrow> state \<Rightarrow> state" where
  "showToast t s = s\<lparr>toasts := toasts s @ [t]\<rparr>"

definition set_hidden :: "elem list \<Rightarrow> bool \<Rightarrow> state \<Rightarrow> state" where
  "set_hidden es b s = s\<lparr>hidden := (\<lambda>e. if e \<in> set es then b else hidden s e)\<rparr>"

definition showFilterLoading :: "state \<Rightarrow> state" where
  "showFilterLoading s = s\<lparr>filterLoading := True\<rparr>"

definition hideFilterLoading :: "state \<Rightarrow> state" where
  "hideFilterLoading s = s\<lparr>filterLoading := False\<rparr>"

definition showComparisonLoading :: "state \<Rightarrow> state" where
  "showComparisonLoading s = s\<lparr>comparisonLoading := True\<rparr>"

definition hideComparisonLoading :: "state \<Rightarrow> state" where
  "hideComparisonLoading s = s\<lparr>comparisonLoading := False\<rparr>"

text \<open>\<^verbatim>\<open>setTimeout\<close> returns a fresh identifier; \<^verbatim>\<open>clearTimeout\<close> of \<^verbatim>\<open>null\<close> or of a
  timer that has fired does nothing.\<close>

definition setTimeout :: "timer_action \<Rightarrow> nat \<Rightarrow> state \<Rightarrow> nat \<times> state" where
  "setTimeout a delay s =
     (nextTimer s, s\<lparr>timers := timers s @ [(nextTimer s, now s + delay, a)],
                      nextTimer := Suc (nextTimer s)\<rparr>)"

definition clearTimeout :: "nat option \<Rightarrow> state \<Rightarrow> state" where
  "clearTimeout t s = s\<lparr>timers := filter (\<lambda>tm. Some (fst tm) \<noteq> t) (timers s)\<rparr>"

text \<open>\<^verbatim>\<open>fetch\<close>: the request is logged and in flight; the result is its identifier.\<close>

definition fetch :: "payload \<Rightarrow> kont \<Rightarrow> state \<Rightarrow> state" where
  "fetch p k s = s\<lparr>inflight := inflight s @ [(nextReq s, p, k)],
                   fetches := fetches s @ [(endpoint_of k, p)],
                   nextReq := Suc (nextReq s)\<rparr>"

text \<open>\<^verbatim>\<open>controller.abort()\<close>: a request in flight under that controller is rejected with
  \<^verbatim>\<open>AbortError\<close>; the rest of its function runs as a microtask, after the current task.\<close>

definition abort :: "nat \<Rightarrow> state \<Rightarrow> state" where
  "abort c s = (case find (\<lambda>q. fst q = c) (inflight s) of
       None \<Rightarrow> s
     | Some q \<Rightarrow> s\<lparr>inflight := filter (\<lambda>q. fst q \<noteq> c) (inflight s),
                    microtasks := microtasks s @ [q]\<rparr>)"

definition getFilters :: "state \<Rightarrow> filter_selection" where
  "getFilters s = \<lparr>period_type = val (sels s PeriodType),
     year = val (sels s Year), fy = val (sels s Fy), quarter = val (sels s Quarter),
     states = mval (msels s States), districts = mval (msels s Districts),
     rbms = mval (msels s Rbms), bdms = mval (msels s Bdms),
     branches = mval (msels s Branches), brands = mval (msels s Brands)\<rparr>"


section \<open>Debounce\<close>

definition debouncedApplyFilters :: "state \<Rightarrow> state" where
  "debouncedApplyFilters s =
     (let s1 = clearTimeout (filterDebounceTimer s) s;
          s2 = showFilterLoading s1;
          (t, s3) = setTimeout RunApplyFilters 300 s2
      in s3\<lparr>filterDebounceTimer := Some t\<rparr>)"

definition debouncedLoadComparison :: "state \<Rightarrow> state" where
  "debouncedLoadComparison s =
     (let s1 = clearTimeout (filterDebounceTimer s) s;
          s2 = showComparisonLoading s1;
          (t, s3) = setTimeout RunLoadComparison 300 s2
      in s3\<lparr>filterDebounceTimer := Some t\<rparr>)"


section \<open>Charts and map\<close>

definition renderChart :: "string \<Rightarrow> obj \<Rightarrow> state \<Rightarrow> state" where
  "renderChart chartType chartData s = s\<lparr>chartDisplay :=
     (if chartType = ''monthly'' \<and> has_field chartData ''labels'' then Plotted chartType chartData
      else if chartType = ''hierarchy'' \<and> has_field chartData ''rbm'' then Plotted chartType chartData
      else if chartType = ''geographic'' \<and> has_field chartData ''states'' then Plotted chartType chartData
      else if chartType = ''product'' \<and> has_field chartData ''labels'' then Plotted chartType chartData
      else if chartType = ''rbm'' \<and> has_field chartData ''labels'' then Plotted chartType chartData
      else NoDataAvailable)\<rparr>"

definition districts_of :: "obj option \<Rightarrow> jv list" where
  "districts_of d = (case d of None \<Rightarrow> []
     | Some m \<Rightarrow> (case map_of m ''districts'' of Some (JArr ds) \<Rightarrow> ds | _ \<Rightarrow> []))"

text \<open>\<^verbatim>\<open>renderIndiaMap\<close>, on a page that has the map container: the map is created on
  first use, the old markers are removed and one marker per district is drawn.\<close>

definition renderIndiaMap :: "obj option \<Rightarrow> state \<Rightarrow> state" where
  "renderIndiaMap mapData s = s\<lparr>indiaMap := True, mapMarkers := districts_of mapData\<rparr>"

definition loadChart :: "string \<Rightarrow> filter_selection \<Rightarrow> state \<Rightarrow> state" where
  "loadChart chartType filters s =
     fetch (PFilters filters) (KChart chartType)
       ((set_hidden [ChartLoading] False s)\<lparr>chartDisplay := Blank\<rparr>)"

definition loadMapData :: "filter_selection \<Rightarrow> state \<Rightarrow> state" where
  "loadMapData filters s = fetch (PFilters filters) KMap s"

text \<open>\<^verbatim>\<open>showChart\<close>. Which tab is highlighted depends on the tabs' captions in the page
  markup and is not modelled.\<close>

definition showChart :: "string \<Rightarrow> state \<Rightarrow> state" where
  "showChart chartType s0 =
     (let s = s0\<lparr>activeChart := chartType\<rparr> in
      if chartType = ''map'' then
        (let s1 = set_hidden [MapContainer] False (set_hidden [ChartDisplay] True s) in
         case map_of (cachedChartData s1) ''map'' of
           Some d \<Rightarrow> renderIndiaMap (Some d) s1
         | None \<Rightarrow> loadMapData (getFilters s1) s1)
      else
        (let s1 = set_hidden [MapContainer] True (set_hidden [ChartDisplay] False s) in
         case map_of (cachedChartData s1) chartType of
           Some d \<Rightarrow> renderChart chartType d s1
         | None \<Rightarrow> loadChart chartType (getFilters s1) s1))"


section \<open>Filter application\<close>

text \<open>The rest of \<^verbatim>\<open>loadData\<close> after \<^verbatim>\<open>await applyFilters()\<close>: the success toast, and the
  \<^verbatim>\<open>finally\<close> block that enables the refresh button.\<close>

definition after_load :: "string option \<Rightarrow> state \<Rightarrow> state" where
  "after_load after s = (case after of None \<Rightarrow> s
     | Some m \<Rightarrow> (showToast (ToastLoaded m) s)\<lparr>refreshDisabled := False\<rparr>)"

text \<open>\<^verbatim>\<open>applyFilters\<close> up to its \<^verbatim>\<open>await fetch\<close>. The controller of the new request is
  identified with the request.\<close>

definition applyFilters_k :: "string option \<Rightarrow> state \<Rightarrow> state" where
  "applyFilters_k after s0 =
     (let s = s0\<lparr>applyCalls := Suc (applyCalls s0)\<rparr> in
      if \<not> dataLoaded s then after_load after s
      else
        (let s1 = (case pendingRequest s of Some c \<Rightarrow> abort c s | None \<Rightarrow> s);
             s2 = s1\<lparr>pendingRequest := Some (nextReq s1)\<rparr>;
             filters = getFilters s2
         in fetch (PFilters filters) (KDashboard filters after) s2))"

definition applyFilters :: "state \<Rightarrow> state" where
  "applyFilters = applyFilters_k None"

text \<open>The body of \<^verbatim>\<open>if (data.success)\<close> in \<^verbatim>\<open>applyFilters\<close>.\<close>

definition applyFilters_success :: "filter_selection \<Rightarrow> dashboard_data \<Rightarrow> state \<Rightarrow> state" where
  "applyFilters_success filters d s =
     (let s1 = s\<lparr>kpiPanel := Some (kpis d)\<rparr>;
          s2 = (case insights d of Some i \<Rightarrow> s1\<lparr>insightsPanel := Some i\<rparr> | None \<Rightarrow> s1);
          s3 = s2\<lparr>cachedChartData := charts d\<rparr>;
          s4 = (if activeChart s3 = ''map''
                then renderIndiaMap (map_of (cachedChartData s3) ''map'') s3
                else (case map_of (cachedChartData s3) (activeChart s3) of
                        Some c \<Rightarrow> renderChart (activeChart s3) c s3
                      | None \<Rightarrow> s3));
          s5 = s4\<lparr>tablePanel := Some (table_rows d, total_records d)\<rparr>;
          s6 = s5\<lparr>statusBar := Some filters\<rparr>
      in hideFilterLoading s6)"

text \<open>\<^verbatim>\<open>applyFilters\<close> from the point where its request settles: the \<^verbatim>\<open>try\<close> body, the
  \<^verbatim>\<open>catch\<close> block, the \<^verbatim>\<open>finally\<close> block, and then whoever awaited it. A response that does
  not belong to the endpoint gives \<open>None\<close>.\<close>

definition applyFilters_settled ::
  "filter_selection \<Rightarrow> string option \<Rightarrow> response \<Rightarrow> state \<Rightarrow> state option" where
  "applyFilters_settled filters after r s =
     (case r of
        DashboardOk d \<Rightarrow>
          Some (after_load after ((applyFilters_success filters d s)\<lparr>pendingRequest := None\<rparr>))
      | Refused _ \<Rightarrow> Some (after_load after (s\<lparr>pendingRequest := None\<rparr>))
      | Failed _ \<Rightarrow> Some (after_load after ((hideFilterLoading s)\<lparr>pendingRequest := None\<rparr>))
      | _ \<Rightarrow> None)"

text \<open>The same function when its request was aborted: the \<^verbatim>\<open>catch\<close> block sees an
  \<^verbatim>\<open>AbortError\<close>, logs nothing and hides the loading indicator; \<^verbatim>\<open>finally\<close> clears
  \<^verbatim>\<open>pendingRequest\<close>.\<close>

definition run_aborted :: "request \<Rightarrow> state \<Rightarrow> state" where
  "run_aborted q s = (case snd (snd q) of
       KDashboard filters after \<Rightarrow> after_load after ((hideFilterLoading s)\<lparr>pendingRequest := None\<rparr>)
     | _ \<Rightarrow> s)"

definition drain :: "state \<Rightarrow> state" where
  "drain s = fold run_aborted (microtasks s) (s\<lparr>microtasks := []\<rparr>)"

definition refreshInsights :: "state \<Rightarrow> state" where
  "refreshInsights s = fetch (PFilters (getFilters s)) KInsights s"

definition refreshInsights_settled :: "response \<Rightarrow> state \<Rightarrow> state option" where
  "refreshInsights_settled r s =
     (case r of
        InsightsOk i \<Rightarrow> Some (showToast ToastInsights (s\<lparr>insightsPanel := Some i\<rparr>))
      | Refused _ \<Rightarrow> Some s
      | Failed _ \<Rightarrow> Some s
      | _ \<Rightarrow> None)"

definition loadChart_settled :: "string \<Rightarrow> response \<Rightarrow> state \<Rightarrow> state option" where
  "loadChart_settled chartType r s =
     (case r of
        ChartOk (Some d) \<Rightarrow> Some (set_hidden [ChartLoading] True (renderChart chartType d s))
      | ChartOk None \<Rightarrow> Some (set_hidden [ChartLoading] True (s\<lparr>chartDisplay := NoDataForChart\<rparr>))
      | Refused _ \<Rightarrow> Some (set_hidden [ChartLoading] True (s\<lparr>chartDisplay := NoDataForChart\<rparr>))
      | Failed _ \<Rightarrow> Some (set_hidden [ChartLoading] True (s\<lparr>chartDisplay := ErrorLoadingChart\<rparr>))
      | _ \<Rightarrow> None)"

definition loadMapData_settled :: "response \<Rightarrow> state \<Rightarrow> state option" where
  "loadMapData_settled r s =
     (case r of
        MapOk (Some d) \<Rightarrow> Some (renderIndiaMap (Some d) s)
      | MapOk None \<Rightarrow> Some s
      | Refused _ \<Rightarrow> Some s
      | Failed _ \<Rightarrow> Some s
      | _ \<Rightarrow> None)"


section \<open>Comparison\<close>

fun split_on :: "char \<Rightarrow> string \<Rightarrow> string list" where
  "split_on c [] = [[]]"
| "split_on c (x # xs) =
     (if x = c then [] # split_on c xs
      else (case split_on c xs of w # ws \<Rightarrow> (x # w) # ws | [] \<Rightarrow> [[x]]))"

text \<open>A destructured element that is \<^verbatim>\<open>undefined\<close> is a property \<^verbatim>\<open>JSON.stringify\<close> leaves out.\<close>

definition nth_field :: "string \<Rightarrow> string list \<Rightarrow> nat \<Rightarrow> obj" where
  "nth_field name xs i = (if i < length xs then [(name, JStr (xs ! i))] else [])"

definition comparison_params ::
  "string \<Rightarrow> string option \<Rightarrow> string option \<Rightarrow> string option \<Rightarrow> state \<Rightarrow> obj option" where
  "comparison_params compType period1 period2 dimension s =
     (let base = [(''comparison_type'', JStr compType), (''dimension'', jopt dimension),
                  (''filters'', JObj [(''rbms'', JArr (map JStr (mval (msels s CompRbms)))),
                                      (''states'', JArr (map JStr (mval (msels s CompStates)))),
                                      (''brands'', JArr (map JStr (mval (msels s CompBrands)))),
                                      (''branches'', JArr (map JStr (mval (msels s CompBranches))))])]
      in if compType = ''year'' then
           Some (base @ [(''period1_year'', jopt period1), (''period2_year'', jopt period2)])
         else if compType = ''fy'' then
           Some (base @ [(''period1_fy'', jopt period1), (''period2_fy'', jopt period2)])
         else if compType = ''quarter'' then
           (case (period1, period2) of
              (Some p1, Some p2) \<Rightarrow>
                Some (base @ nth_field ''period1_year'' (split_on CHR ''-'' p1) 0
                           @ nth_field ''period1_quarter'' (split_on CHR ''-'' p1) 1
                           @ nth_field ''period2_year'' (split_on CHR ''-'' p2) 0
                           @ nth_field ''period2_quarter'' (split_on CHR ''-'' p2) 1)
            | _ \<Rightarrow> None)
         else Some base)"

text \<open>\<^verbatim>\<open>loadComparison\<close> up to its \<^verbatim>\<open>await fetch\<close>. Where the source throws a
  \<^verbatim>\<open>TypeError\<close> (\<^verbatim>\<open>toUpperCase\<close> or \<^verbatim>\<open>split\<close> of \<^verbatim>\<open>null\<close>) the function ends there, with what
  it had written.\<close>

definition loadComparison :: "state \<Rightarrow> state" where
  "loadComparison s =
     (if \<not> dataLoaded s then s
      else
        (let compType = val (sels s ComparisonType);
             period1 = val (sels s Period1);
             period2 = val (sels s Period2);
             dimension = val (sels s ComparisonDimension);
             s1 = s\<lparr>comparisonTitle := Some (period1, period2)\<rparr>
         in case compType of
              None \<Rightarrow> s1
            | Some ct \<Rightarrow>
               (let s2 = s1\<lparr>comparisonSubtitle := Some (ct, dimension)\<rparr>
                in case comparison_params ct period1 period2 dimension s2 of
                     None \<Rightarrow> s2
                   | Some params \<Rightarrow> fetch (PComparison params) KComparison s2)))"

definition renderComparisonChart :: "comparison_data \<Rightarrow> comparison_chart" where
  "renderComparisonChart d = (case cmp_chart d of
       None \<Rightarrow> NoComparisonData
     | Some (labels, rest) \<Rightarrow> if labels = [] then NoComparisonData else ComparisonPlot labels rest)"

definition loadComparison_settled :: "response \<Rightarrow> state \<Rightarrow> state option" where
  "loadComparison_settled r s =
     (case r of
        ComparisonOk d \<Rightarrow>
          Some (hideComparisonLoading
                 (s\<lparr>comparisonKpis := Some (cmp_body d),
                    comparisonChart := renderComparisonChart d,
                    comparisonTable := Some (cmp_rows d)\<rparr>))
      | Refused _ \<Rightarrow> Some s
      | Failed _ \<Rightarrow> Some (hideComparisonLoading s)
      | _ \<Rightarrow> None)"


section \<open>Filter population\<close>

text \<open>A single select whose options are rebuilt shows its first option.\<close>

definition with_options :: "string list \<Rightarrow> select" where
  "with_options new = \<lparr>opts = new, val = (case new of [] \<Rightarrow> None | x # _ \<Rightarrow> Some x)\<rparr>"

definition upd_sel :: "sel_id \<Rightarrow> (select \<Rightarrow> select) \<Rightarrow> state \<Rightarrow> state" where
  "upd_sel i f s = s\<lparr>sels := (sels s)(i := f (sels s i))\<rparr>"

definition upd_msel :: "msel_id \<Rightarrow> (mselect \<Rightarrow> mselect) \<Rightarrow> state \<Rightarrow> state" where
  "upd_msel i f s = s\<lparr>msels := (msels s)(i := f (msels s i))\<rparr>"

text \<open>\<^verbatim>\<open>populateComparisonPeriods\<close>. Before the first load \<^verbatim>\<open>filterOptions\<close> is \<^verbatim>\<open>{}\<close>, and
  \<^verbatim>\<open>filterOptions.years.forEach\<close> throws after both selects were emptied: the flag tells
  whether the function returned normally.\<close>

definition default_periods :: "string list \<Rightarrow> state \<Rightarrow> state" where
  "default_periods ys s =
     (let s1 = upd_sel Period2 (\<lambda>_. with_options ys) (upd_sel Period1 (\<lambda>_. with_options ys) s)
      in if length ys \<ge> 2
         then upd_sel Period2 (set_val (ys ! 0)) (upd_sel Period1 (set_val (ys ! 1)) s1)
         else s1)"

definition populateComparisonPeriods :: "state \<Rightarrow> bool \<times> state" where
  "populateComparisonPeriods s =
     (let ty = val (sels s ComparisonType);
          s1 = upd_sel Period2 (\<lambda>_. with_options []) (upd_sel Period1 (\<lambda>_. with_options []) s)
      in if ty = Some ''year'' \<or> ty = Some ''fy'' \<or> ty = Some ''quarter'' then
           (case filterOptions s of
              None \<Rightarrow> (False, s1)
            | Some fo \<Rightarrow>
                if ty = Some ''year'' then (True, default_periods (o_years fo) s1)
                else if ty = Some ''fy'' then (True, default_periods (o_financial_years fo) s1)
                else
                  (let vs = concat (map (\<lambda>y. map (\<lambda>q. y @ ''-'' @ q) (o_quarters fo)) (o_years fo))
                   in (True, upd_sel Period2 (\<lambda>_. with_options vs)
                               (upd_sel Period1 (\<lambda>_. with_options vs) s1))))
         else (True, s1))"

definition repopulate :: "string list \<Rightarrow> select \<Rightarrow> select" where
  "repopulate new c =
     (let c1 = \<lparr>opts = [] # new, val = Some []\<rparr>
      in case val c of Some v \<Rightarrow> (if v \<noteq> [] then set_val v c1 else c1) | None \<Rightarrow> c1)"

definition preserveSelection :: "string list \<Rightarrow> mselect \<Rightarrow> mselect" where
  "preserveSelection new c =
     (let c1 = \<lparr>mopts = new, mval = []\<rparr>
      in if mval c \<noteq> [] then set_mval (mval c) c1 else c1)"

definition populateFilters :: "filter_options \<Rightarrow> state \<Rightarrow> state" where
  "populateFilters fo s =
     (let s1 = upd_sel Quarter (repopulate (o_quarters fo))
                (upd_sel Fy (repopulate (o_financial_years fo))
                  (upd_sel Year (repopulate (o_years fo)) s));
          s2 = upd_msel Brands (preserveSelection (o_brands fo))
                (upd_msel Branches (preserveSelection (o_branches fo))
                  (upd_msel Bdms (preserveSelection (o_bdms fo))
                    (upd_msel Rbms (preserveSelection (o_rbms fo))
                      (upd_msel Districts (preserveSelection (o_districts fo))
                        (upd_msel States (preserveSelection (o_states fo)) s1)))));
          s3 = upd_msel CompBrands (preserveSelection (o_brands fo))
                (upd_msel CompBranches (preserveSelection (o_branches fo))
                  (upd_msel CompRbms (preserveSelection (o_rbms fo))
                    (upd_msel CompStates (preserveSelection (o_states fo)) s2)))
      in snd (populateComparisonPeriods s3))"


section \<open>Bulk load\<close>

text \<open>\<^verbatim>\<open>loadData\<close> up to its \<^verbatim>\<open>await fetch\<close>: the timeout timer aborts this request after
  300000 ms.\<close>

definition loadData :: "bool \<Rightarrow> nat \<Rightarrow> state \<Rightarrow> state" where
  "loadData forceRefresh retryCount s =
     (let s1 = (if \<not> forceRefresh then set_hidden [LoadingOverlay] False s else s);
          s2 = s1\<lparr>refreshDisabled := True, loadingMessage := MsgStage (min retryCount 2)\<rparr>;
          (timeoutId, s3) = setTimeout (AbortLoad (nextReq s2)) 300000 s2
      in fetch (PLoad forceRefresh) (KLoad forceRefresh retryCount timeoutId) s3)"

text \<open>The \<^verbatim>\<open>catch\<close> block of \<^verbatim>\<open>loadData\<close>; \<open>aborted\<close> is \<^verbatim>\<open>error.name === 'AbortError'\<close>. On
  the retry branch the function sleeps; what follows the sleep is \<open>resumeLoad\<close>.\<close>

definition loadData_catch :: "bool \<Rightarrow> nat \<Rightarrow> bool \<Rightarrow> load_error \<Rightarrow> state \<Rightarrow> state" where
  "loadData_catch forceRefresh retryCount aborted err s =
     (if retryCount < 3 \<and> aborted then
        snd (setTimeout (ResumeLoad forceRefresh (retryCount + 1)) 2000
               (s\<lparr>loadingMessage := MsgRetrying (retryCount + 2)\<rparr>))
      else
        (showToast (ToastLoadFailed err)
           (set_hidden [WelcomeScreen] False (set_hidden [LoadingOverlay] True s)))
        \<lparr>refreshDisabled := False\<rparr>)"

text \<open>After the cool-down: \<^verbatim>\<open>return loadData(forceRefresh, retryCount + 1)\<close> runs the new
  call up to its first \<^verbatim>\<open>await\<close>, then the \<^verbatim>\<open>finally\<close> block of the old call runs.\<close>

definition resumeLoad :: "bool \<Rightarrow> nat \<Rightarrow> state \<Rightarrow> state" where
  "resumeLoad forceRefresh retryCount s = (loadData forceRefresh retryCount s)\<lparr>refreshDisabled := False\<rparr>"

definition loadData_success :: "string \<Rightarrow> filter_options \<Rightarrow> state \<Rightarrow> state" where
  "loadData_success message fo s =
     (let s1 = s\<lparr>dataLoaded := True, filterOptions := Some fo\<rparr>;
          s2 = populateFilters fo s1;
          s3 = set_hidden [LoadingOverlay] True
                 (set_hidden [DashboardContent] False (set_hidden [WelcomeScreen] True s2))
      in applyFilters_k (Some message) s3)"

definition error_text :: "string option \<Rightarrow> string" where
  "error_text e = (case e of Some m \<Rightarrow> (if m = [] then ''Unknown error loading data'' else m)
     | None \<Rightarrow> ''Unknown error loading data'')"

definition loadData_settled ::
  "bool \<Rightarrow> nat \<Rightarrow> nat \<Rightarrow> response \<Rightarrow> state \<Rightarrow> state option" where
  "loadData_settled forceRefresh retryCount timeoutId r s =
     (case r of
        LoadOk message fo \<Rightarrow> Some (loadData_success message fo (clearTimeout (Some timeoutId) s))
      | Refused e \<Rightarrow>
          Some (loadData_catch forceRefresh retryCount False (ErrorMessage (error_text e))
                  (clearTimeout (Some timeoutId) s))
      | Failed m \<Rightarrow> Some (loadData_catch forceRefresh retryCount False (ErrorMessage m) s)
      | _ \<Rightarrow> None)"

text \<open>The timeout timer: \<^verbatim>\<open>controller.abort()\<close> rejects the load request if it is still in
  flight, and \<^verbatim>\<open>loadData\<close> continues in its \<^verbatim>\<open>catch\<close> block with an \<^verbatim>\<open>AbortError\<close>.\<close>

definition abortLoad :: "nat \<Rightarrow> state \<Rightarrow> state" where
  "abortLoad c s = (case find (\<lambda>q. fst q = c) (inflight s) of
       Some (_, _, KLoad forceRefresh retryCount _) \<Rightarrow>
         loadData_catch forceRefresh retryCount True TimedOut
           (s\<lparr>inflight := filter (\<lambda>q. fst q \<noteq> c) (inflight s)\<rparr>)
     | _ \<Rightarrow> s)"


section \<open>Filter events, mode, reset, export\<close>

definition onPeriodTypeChange :: "state \<Rightarrow> state" where
  "onPeriodTypeChange s =
     (let ty = val (sels s PeriodType);
          s1 = set_hidden [YearSelect, FySelect, QuarterSelect] True s;
          s2 = (if ty = Some ''year'' \<or> ty = Some ''quarter'' then set_hidden [YearSelect] False s1 else s1);
          s3 = (if ty = Some ''fy'' then set_hidden [FySelect] False s2 else s2);
          s4 = (if ty = Some ''quarter'' then set_hidden [QuarterSelect] False s3 else s3)
      in applyFilters s4)"

definition onComparisonTypeChange :: "state \<Rightarrow> state" where
  "onComparisonTypeChange s =
     (case populateComparisonPeriods s of
        (True, s1) \<Rightarrow> loadComparison s1
      | (False, s1) \<Rightarrow> s1)"

definition setMode :: "string \<Rightarrow> state \<Rightarrow> state" where
  "setMode mode s0 =
     (let s = s0\<lparr>currentMode := mode\<rparr> in
      if mode = ''single'' then
        applyFilters (set_hidden [ComparisonFilters, ComparisonView] True
                        (set_hidden [SingleFilters, SingleView] False s))
      else
        loadComparison (set_hidden [ComparisonFilters, ComparisonView] False
                          (set_hidden [SingleFilters, SingleView] True s)))"

text \<open>\<^verbatim>\<open>resetFilters\<close>. \<^verbatim>\<open>.val(null).trigger('change')\<close> on a collection first clears every
  element, then runs the \<^verbatim>\<open>change\<close> handler once per element: six times
  \<^verbatim>\<open>debouncedApplyFilters\<close>, later four times \<^verbatim>\<open>debouncedLoadComparison\<close>.\<close>

definition resetFilters :: "state \<Rightarrow> state" where
  "resetFilters s =
     (let s1 = upd_sel Quarter (set_val []) (upd_sel Fy (set_val [])
                 (upd_sel Year (set_val []) (upd_sel PeriodType (set_val []) s)));
          s2 = set_hidden [YearSelect, FySelect, QuarterSelect] True s1;
          s3 = fold (\<lambda>i. upd_msel i clear_mval) [States, Districts, Rbms, Bdms, Branches, Brands] s2;
          s4 = fold (\<lambda>_. debouncedApplyFilters) [States, Districts, Rbms, Bdms, Branches, Brands] s3;
          s5 = upd_sel ComparisonType (set_val ''year'') s4;
          s6 = upd_sel Period2 (set_val []) (upd_sel Period1 (set_val []) s5);
          s7 = upd_sel ComparisonDimension (set_val ''Overall'') s6;
          s8 = fold (\<lambda>i. upd_msel i clear_mval) [CompRbms, CompStates, CompBrands, CompBranches] s7;
          s9 = fold (\<lambda>_. debouncedLoadComparison) [CompRbms, CompStates, CompBrands, CompBranches] s8
      in showToast ToastReset (applyFilters s9))"

definition exportData :: "state \<Rightarrow> state" where
  "exportData s = fetch (PFilters (getFilters s)) KExport s"

definition exportData_settled :: "response \<Rightarrow> state \<Rightarrow> state option" where
  "exportData_settled r s =
     (case r of
        ExportOk blob \<Rightarrow> Some (showToast ToastExported (s\<lparr>downloads := downloads s @ [blob]\<rparr>))
      | ExportNotOk \<Rightarrow> Some (showToast ToastExportFailed s)
      | Failed _ \<Rightarrow> Some (showToast ToastExportFailed s)
      | _ \<Rightarrow> None)"

section \<open>The event loop\<close>

text \<open>
  One task of the browser's event loop: what the user does, a timer that fires, or a
  request that settles. \<open>ChangeSelect\<close> and \<open>ChangeMulti\<close> are the user picking a value in
  a control, followed by the \<^verbatim>\<open>change\<close> handler that \<^verbatim>\<open>$(document).ready\<close> bound to it.
\<close>

datatype event = DocumentReady | ClickRefresh | ClickExport
  | ChangeSelect sel_id string | ChangeMulti msel_id "string list"
  | SetMode string | ShowChart string | RefreshInsights | ResetFilters
  | TimerFires nat | Response nat response

fun on_select_change :: "sel_id \<Rightarrow> state \<Rightarrow> state" where
  "on_select_change PeriodType = onPeriodTypeChange"
| "on_select_change ComparisonType = onComparisonTypeChange"
| "on_select_change Year = debouncedApplyFilters"
| "on_select_change Fy = debouncedApplyFilters"
| "on_select_change Quarter = debouncedApplyFilters"
| "on_select_change Period1 = debouncedLoadComparison"
| "on_select_change Period2 = debouncedLoadComparison"
| "on_select_change ComparisonDimension = debouncedLoadComparison"

fun on_multi_change :: "msel_id \<Rightarrow> state \<Rightarrow> state" where
  "on_multi_change States = debouncedApplyFilters"
| "on_multi_change Districts = debouncedApplyFilters"
| "on_multi_change Rbms = debouncedApplyFilters"
| "on_multi_change Bdms = debouncedApplyFilters"
| "on_multi_change Branches = debouncedApplyFilters"
| "on_multi_change Brands = debouncedApplyFilters"
| "on_multi_change CompRbms = debouncedLoadComparison"
| "on_multi_change CompStates = debouncedLoadComparison"
| "on_multi_change CompBrands = debouncedLoadComparison"
| "on_multi_change CompBranches = debouncedLoadComparison"

fun run_timer :: "timer_action \<Rightarrow> state \<Rightarrow> state" where
  "run_timer RunApplyFilters = applyFilters"
| "run_timer RunLoadComparison = loadComparison"
| "run_timer (AbortLoad c) = abortLoad c"
| "run_timer (ResumeLoad forceRefresh retryCount) = resumeLoad forceRefresh retryCount"

fun settle :: "kont \<Rightarrow> response \<Rightarrow> state \<Rightarrow> state option" where
  "settle (KLoad forceRefresh retryCount timeoutId) = loadData_settled forceRefresh retryCount timeoutId"
| "settle (KDashboard filters after) = applyFilters_settled filters after"
| "settle KInsights = refreshInsights_settled"
| "settle (KChart chartType) = loadChart_settled chartType"
| "settle KMap = loadMapData_settled"
| "settle KComparison = loadComparison_settled"
| "settle KExport = exportData_settled"

text \<open>A pending timer fires when it is due and no other pending timer is due earlier; a
  request settles while it is in flight. The refresh button does nothing while disabled.\<close>

definition fire :: "nat \<Rightarrow> state \<Rightarrow> state option" where
  "fire t s = (case find (\<lambda>tm. fst tm = t) (timers s) of
       None \<Rightarrow> None
     | Some (_, d, a) \<Rightarrow>
         if d \<le> now s \<and> (\<forall>tm \<in> set (timers s). d \<le> fst (snd tm))
         then Some (run_timer a (s\<lparr>timers := filter (\<lambda>tm. fst tm \<noteq> t) (timers s)\<rparr>))
         else None)"

definition respond :: "nat \<Rightarrow> response \<Rightarrow> state \<Rightarrow> state option" where
  "respond c r s = (case find (\<lambda>q. fst q = c) (inflight s) of
       None \<Rightarrow> None
     | Some (_, _, k) \<Rightarrow> settle k r (s\<lparr>inflight := filter (\<lambda>q. fst q \<noteq> c) (inflight s)\<rparr>))"

fun handle :: "event \<Rightarrow> state \<Rightarrow> state option" where
  "handle DocumentReady s = Some (loadData False 0 (s\<lparr>loadingMessage := MsgConnecting\<rparr>))"
| "handle ClickRefresh s = Some (if refreshDisabled s then s else loadData True 0 s)"
| "handle ClickExport s = Some (exportData s)"
| "handle (ChangeSelect i v) s = Some (on_select_change i (upd_sel i (set_val v) s))"
| "handle (ChangeMulti i vs) s = Some (on_multi_change i (upd_msel i (set_mval vs) s))"
| "handle (SetMode mode) s = Some (setMode mode s)"
| "handle (ShowChart chartType) s = Some (showChart chartType s)"
| "handle RefreshInsights s = Some (refreshInsights s)"
| "handle ResetFilters s = Some (resetFilters s)"
| "handle (TimerFires t) s = fire t s"
| "handle (Response c r) s = respond c r s"

fun is_timer_event :: "event \<Rightarrow> bool" where
  "is_timer_event (TimerFires _) = True"
| "is_timer_event _ = False"

text \<open>
  A step is an event at a time of the clock, in milliseconds. Time does not go back, and
  timers are served on time: an event other than a timer is handled only while no pending
  timer is overdue. After the task, the continuations of the requests it aborted run.
  \<open>None\<close> means that the event cannot happen in that state at that time.
\<close>

definition step :: "nat \<times> event \<Rightarrow> state \<Rightarrow> state option" where
  "step te s =
     (let t = fst te; ev = snd te in
      if t < now s then None
      else if \<not> is_timer_event ev \<and> (\<exists>tm \<in> set (timers s). fst (snd tm) < t) then None
      else map_option drain (handle ev (s\<lparr>now := t\<rparr>)))"

fun run :: "(nat \<times> event) list \<Rightarrow> state \<Rightarrow> state option" where
  "run [] s = Some s"
| "run (te # rest) s = (case step te s of None \<Rightarrow> None | Some s' \<Rightarrow> run rest s')"

text \<open>
  The state when the script is loaded. The page's markup is not part of the script: the
  controls and the visibility of the page's regions are parameters.
\<close>

definition init :: "(sel_id \<Rightarrow> select) \<Rightarrow> (msel_id \<Rightarrow> mselect) \<Rightarrow> (elem \<Rightarrow> bool) \<Rightarrow> state" where
  "init page_sels page_msels page_hidden =
     \<lparr>dataLoaded = False, filterOptions = None, currentMode = ''single'',
      activeChart = ''monthly'', filterDebounceTimer = None, pendingRequest = None,
      indiaMap = False, cachedChartData = [],
      sels = page_sels, msels = page_msels, hidden = page_hidden,
      filterLoading = False, comparisonLoading = False, refreshDisabled = False,
      loadingMessage = MsgConnecting,
      kpiPanel = None, insightsPanel = None, tablePanel = None, statusBar = None,
      chartDisplay = Blank, mapMarkers = [],
      comparisonTitle = None, comparisonSubtitle = None, comparisonKpis = None,
      comparisonChart = NoComparisonChart, comparisonTable = None,
      toasts = [], downloads = [],
      now = 0, timers = [], nextTimer = 0, inflight = [], nextReq = 0, fetches = [],
      microtasks = [], applyCalls = 0\<rparr>"

text \<open>Modelled from the spec: the page markup is missing from the sources. The period
  type is one of none, year, fy, quarter; the comparison type one of year, fy, quarter;
  the comparison dimension defaults to Overall; the dashboard is hidden behind the
  welcome screen until a load succeeds.\<close>

definition page_sels :: "sel_id \<Rightarrow> select" where
  "page_sels i = (case i of
       PeriodType \<Rightarrow> \<lparr>opts = [[], ''year'', ''fy'', ''quarter''], val = Some []\<rparr>
     | Year \<Rightarrow> \<lparr>opts = [[]], val = Some []\<rparr>
     | Fy \<Rightarrow> \<lparr>opts = [[]], val = Some []\<rparr>
     | Quarter \<Rightarrow> \<lparr>opts = [[]], val = Some []\<rparr>
     | ComparisonType \<Rightarrow> \<lparr>opts = [''year'', ''fy'', ''quarter''], val = Some ''year''\<rparr>
     | Period1 \<Rightarrow> \<lparr>opts = [], val = None\<rparr>
     | Period2 \<Rightarrow> \<lparr>opts = [], val = None\<rparr>
     | ComparisonDimension \<Rightarrow> \<lparr>opts = [''Overall'', ''RBM'', ''State'', ''Brand''], val = Some ''Overall''\<rparr>)"

definition page_msels :: "msel_id \<Rightarrow> mselect" where
  "page_msels i = \<lparr>mopts = [], mval = []\<rparr>"

definition page_hidden :: "elem \<Rightarrow> bool" where
  "page_hidden e = (e \<in> {DashboardContent, YearSelect, FySelect, QuarterSelect,
     ComparisonFilters, ComparisonView, MapContainer, ChartLoading})"

definition page :: state where
  "page = init page_sels page_msels page_hidden"


section \<open>Observations and sample data\<close>

text \<open>What is on screen: KPI cards, insights, table, status badges, the chart, the map
  markers, the chart cache behind the tabs, and the comparison view.\<close>

definition screen ::
  "state \<Rightarrow> (obj option \<times> obj option \<times> (jv list \<times> int) option \<times> filter_selection option)
     \<times> (chart_display \<times> jv list \<times> (string \<times> obj) list)
     \<times> (obj option \<times> comparison_chart \<times> jv list option)" where
  "screen s = ((kpiPanel s, insightsPanel s, tablePanel s, statusBar s),
     (chartDisplay s, mapMarkers s, cachedChartData s),
     (comparisonKpis s, comparisonChart s, comparisonTable s))"

text \<open>The requests of one endpoint that are in flight.\<close>

definition live :: "endpoint \<Rightarrow> state \<Rightarrow> nat list" where
  "live ep s = map fst (filter (\<lambda>q. endpoint_of (snd (snd q)) = ep) (inflight s))"

text \<open>The debounced handlers bound in \<^verbatim>\<open>$(document).ready\<close>: the action a change of a
  control schedules, if its handler is a debounced one.\<close>

fun notifies :: "event \<Rightarrow> timer_action option" where
  "notifies (ChangeSelect i v) =
     (if i = Year \<or> i = Fy \<or> i = Quarter then Some RunApplyFilters
      else if i = Period1 \<or> i = Period2 \<or> i = ComparisonDimension then Some RunLoadComparison
      else None)"
| "notifies (ChangeMulti i vs) =
     (if i = CompRbms \<or> i = CompStates \<or> i = CompBrands \<or> i = CompBranches
      then Some RunLoadComparison else Some RunApplyFilters)"
| "notifies _ = None"


definition demo_options :: filter_options where
  "demo_options = \<lparr>o_years = [''2025'', ''2024''], o_financial_years = [''FY25'', ''FY24''],
     o_quarters = [''Q1'', ''Q2''], o_states = [''Kerala'', ''Goa''], o_districts = [''Kochi''],
     o_rbms = [''Asha''], o_bdms = [''Ravi''], o_branches = [''Main''], o_brands = [''Acme'']\<rparr>"

definition demo_data :: "int \<Rightarrow> dashboard_data" where
  "demo_data n = \<lparr>kpis = [(''revenue'', JNum n)], insights = None,
     charts = [(''monthly'', [(''labels'', JArr [JStr ''Jan'']), (''revenue'', JArr [JNum n])]),
               (''product'', [(''labels'', JArr [JStr ''Tea'']), (''profit'', JArr [JNum n])])],
     table_rows = [], total_records = n\<rparr>"

definition demo_comparison :: "int \<Rightarrow> comparison_data" where
  "demo_comparison n = \<lparr>cmp_body = [(''revenue_diff'', JNum n)],
     cmp_chart = Some ([''Kerala''], [(''period1'', JArr [JNum n])]),
     cmp_rows = [JObj [(''dimension'', JStr ''Kerala''), (''growth'', JNum n)]]\<rparr>"

definition demo_map :: obj where
  "demo_map = [(''districts'', JArr [JObj [(''name'', JStr ''Kochi''), (''revenue'', JNum 7)]])]"

text \<open>The page opens, the bulk load succeeds after one second, and the first dashboard
  response arrives: requests 0 and 1 are settled, no timer is pending.\<close>

definition loaded_trace :: "(nat \<times> event) list" where
  "loaded_trace = [(0, DocumentReady), (1000, Response 0 (LoadOk ''ok'' demo_options)),
     (1200, Response 1 (DashboardOk (demo_data 1)))]"

text \<open>The page opens and the bulk load times out four times in a row: each timeout timer
  fires 300000 ms after its request, each retry timer 2000 ms after the timeout.\<close>

definition four_timeouts :: "(nat \<times> event) list" where
  "four_timeouts = [(0, DocumentReady),
     (300000, TimerFires 0), (302000, TimerFires 1),
     (602000, TimerFires 2), (604000, TimerFires 3),
     (904000, TimerFires 4), (906000, TimerFires 5),
     (1206000, TimerFires 6)]"

text \<open>
  Between two tasks the browser's side of the state is tidy: timer and request
  identifiers are fresh, at most one debounced action is pending and
  \<^verbatim>\<open>filterDebounceTimer\<close> names it, and no continuation of an aborted request is waiting.
\<close>

fun is_debounce :: "timer_action \<Rightarrow> bool" where
  "is_debounce RunApplyFilters = True"
| "is_debounce RunLoadComparison = True"
| "is_debounce _ = False"

definition tidy0 :: "state \<Rightarrow> bool" where
  "tidy0 s = ((\<forall>tm \<in> set (timers s). fst tm < nextTimer s)
     \<and> (\<forall>q \<in> set (inflight s). fst q < nextReq s)
     \<and> (\<forall>tm \<in> set (timers s). is_debounce (snd (snd tm)) \<longrightarrow> filterDebounceTimer s = Some (fst tm)))"

definition tidy :: "state \<Rightarrow> bool" where
  "tidy s = (tidy0 s \<and> microtasks s = [])"


section \<open>Formatter: magnitude classes and sign\<close>

lemma show_nat_small: "n < 10 \<Longrightarrow> show_nat n = [digit_char n]"
  by (subst show_nat.simps) simp

lemma show_nat_big: "10 \<le> n \<Longrightarrow> show_nat n = show_nat (n div 10) @ [digit_char (n mod 10)]"
  by (subst show_nat.simps) simp

lemma frac_digits_2: "frac_digits 2 n = [digit_char (n div 10 mod 10), digit_char (n mod 10)]"
  by (simp add: numeral_2_eq_2)

lemma floor_rat_numeral: "\<lfloor>(numeral a :: rat) / numeral b\<rfloor> = numeral a div numeral b"
  by (metis floor_divide_of_int_eq of_int_numeral)

lemmas render = floor_rat_numeral frac_digits_2 toFixed_def sign_prefix_def
  show_nat_small show_nat_big digit_char_def Let_def

lemma digit_char_digit: "n < 10 \<Longrightarrow> digit_char n \<in> set ''0123456789''"
  unfolding digit_char_def by (rule nth_mem) simp

lemma show_nat_digits: "set (show_nat n) \<subseteq> set ''0123456789''"
proof (induction n rule: show_nat.induct)
  case (1 n)
  show ?case
  proof (cases "n < 10")
    case True
    then show ?thesis using digit_char_digit [of n] by (simp add: show_nat_small)
  next
    case False
    have "digit_char (n mod 10) \<in> set ''0123456789''" by (rule digit_char_digit) simp
    with False 1 show ?thesis by (simp add: show_nat_big)
  qed
qed

lemma show_nat_nonempty: "show_nat n \<noteq> []"
  by (subst show_nat.simps) simp

text \<open>
  Claim C9, as stated, asks for a rendering without suffix at 9,999. The program formats
  9,999 in thousands: 9.999 rounds to 10.00 and the result carries the K suffix.
\<close>

theorem formatCurrency_9999_has_K_suffix:
  "formatCurrency (Num 9999) = ''+Rs.10.00 K'' \<and> formatCurrency (Num 9999) \<noteq> ''+Rs.9999''
   \<and> formatCurrency (Num 9999) \<noteq> ''Rs.9999''"
  by (simp add: render)

text \<open>
  Claim C9, amended: the rendering has no suffix exactly for magnitudes below 1,000 (the
  sign, \<open>Rs.\<close> and digits only); from 1,000 it is the value in thousands with suffix K,
  from 100,000 in lakhs with suffix Lakh, from 10,000,000 in crores with suffix Cr, each
  with two decimals. The output starts with \<open>-\<close> for every negative input, with \<open>+\<close> for
  every positive input, and has no sign for zero.
\<close>

theorem formatCurrency_magnitude_and_sign:
  "(\<bar>v\<bar> < 1000 \<longrightarrow>
      (\<exists>ds. formatCurrency (Num v) = sign_prefix v @ ''Rs.'' @ ds \<and> ds \<noteq> []
            \<and> set ds \<subseteq> set ''0123456789''))
   \<and> (1000 \<le> \<bar>v\<bar> \<and> \<bar>v\<bar> < 100000 \<longrightarrow>
      formatCurrency (Num v) = sign_prefix v @ ''Rs.'' @ toFixed 2 (\<bar>v\<bar> / 1000) @ '' K'')
   \<and> (100000 \<le> \<bar>v\<bar> \<and> \<bar>v\<bar> < 10000000 \<longrightarrow>
      formatCurrency (Num v) = sign_prefix v @ ''Rs.'' @ toFixed 2 (\<bar>v\<bar> / 100000) @ '' Lakh'')
   \<and> (10000000 \<le> \<bar>v\<bar> \<longrightarrow>
      formatCurrency (Num v) = sign_prefix v @ ''Rs.'' @ toFixed 2 (\<bar>v\<bar> / 10000000) @ '' Cr'')
   \<and> (v < 0 \<longrightarrow> sign_prefix v = ''-'')
   \<and> (0 < v \<longrightarrow> sign_prefix v = ''+'')
   \<and> (v = 0 \<longrightarrow> sign_prefix v = [] \<and> formatCurrency (Num v) = ''Rs.0'')"
proof -
  have z: "formatCurrency (Num 0) = ''Rs.0''" by (simp add: render)
  have small: "\<bar>v\<bar> < 1000 \<Longrightarrow>
      formatCurrency (Num v) = sign_prefix v @ ''Rs.'' @ show_nat (nat \<lfloor>\<bar>v\<bar> + 1 / 2\<rfloor>)"
    by (simp add: toFixed_def Let_def)
  show ?thesis
    using z small show_nat_digits show_nat_nonempty
    by (auto simp add: sign_prefix_def Let_def)
qed

theorem formatCurrency_magnitude_and_sign_witness:
  "formatCurrency (Num 1500) = ''+Rs.1.50 K''
   \<and> formatCurrency (Num 150000) = ''+Rs.1.50 Lakh''
   \<and> formatCurrency (Num 15000000) = ''+Rs.1.50 Cr''
   \<and> formatCurrency (Num (- 2500)) = ''-Rs.2.50 K''
   \<and> formatCurrency (Num 0) = ''Rs.0''"
proof -
  have a: "toFixed 2 (3 / 2) = ''1.50''" "toFixed 2 (5 / 2) = ''2.50''"
    by (simp_all add: render)
  show ?thesis
    using formatCurrency_magnitude_and_sign [of 1500] formatCurrency_magnitude_and_sign [of 150000]
      formatCurrency_magnitude_and_sign [of 15000000] formatCurrency_magnitude_and_sign [of "- 2500"]
      formatCurrency_magnitude_and_sign [of 0] a
    by (simp add: sign_prefix_def del: formatCurrency.simps)
qed


section \<open>Evaluating traces\<close>

lemmas ops = step_def fire_def respond_def
  page_def init_def page_sels_def page_msels_def page_hidden_def
  loadData_def loadData_settled_def loadData_success_def loadData_catch_def resumeLoad_def abortLoad_def
  populateFilters_def populateComparisonPeriods_def default_periods_def repopulate_def preserveSelection_def
  with_options_def upd_sel_def upd_msel_def set_val_def set_mval_def clear_mval_def
  applyFilters_def applyFilters_k_def applyFilters_settled_def applyFilters_success_def after_load_def
  run_aborted_def drain_def abort_def fetch_def setTimeout_def clearTimeout_def getFilters_def
  showToast_def set_hidden_def showFilterLoading_def hideFilterLoading_def showComparisonLoading_def
  hideComparisonLoading_def debouncedApplyFilters_def debouncedLoadComparison_def
  renderChart_def renderIndiaMap_def districts_of_def loadChart_def loadMapData_def showChart_def
  loadComparison_def loadComparison_settled_def comparison_params_def renderComparisonChart_def
  onPeriodTypeChange_def onComparisonTypeChange_def setMode_def resetFilters_def exportData_def
  exportData_settled_def refreshInsights_def refreshInsights_settled_def loadChart_settled_def
  loadMapData_settled_def has_field_def jopt_def nth_field_def error_text_def
  demo_options_def demo_data_def demo_comparison_def demo_map_def loaded_trace_def
  live_def screen_def Let_def



section \<open>Last edit wins\<close>

text \<open>
  Claim C1 (last-edit-wins per operation class) fails on the program. Filter-apply: the
  period type is changed three times while the dashboard requests are in flight (requests
  2, 3 and 4). Request 2 is aborted by request 3, and the \<^verbatim>\<open>finally\<close> block of the aborted
  call clears \<^verbatim>\<open>pendingRequest\<close>, which by then holds the controller of request 3; so
  request 4 aborts nothing. When the response of 4 arrives before the response of 3, the
  screen and the cache end with the data of request 3, the older edit, while the controls
  show the last edit. Comparison-load has no cancellation at all: of two comparison
  requests (2, then 3) the response that arrives last is the one shown.
\<close>

theorem stale_response_overwrites_newer:
  "map_option (\<lambda>s. (cachedChartData s, kpiPanel s, map_option period_type (statusBar s),
                     period_type (getFilters s)))
     (run (loaded_trace @
        [(2000, ChangeSelect PeriodType ''year''),
         (2100, ChangeSelect PeriodType ''fy''),
         (2200, ChangeSelect PeriodType ''quarter''),
         (2300, Response 4 (DashboardOk (demo_data 4))),
         (2400, Response 3 (DashboardOk (demo_data 3)))]) page)
   = Some (charts (demo_data 3), Some (kpis (demo_data 3)), Some (Some ''fy''), Some ''quarter'')
   \<and> map_option (\<lambda>s. (comparisonKpis s, comparisonTable s, val (sels s ComparisonType)))
     (run (loaded_trace @
        [(2000, ChangeSelect ComparisonType ''fy''),
         (2100, ChangeSelect ComparisonType ''year''),
         (2300, Response 3 (ComparisonOk (demo_comparison 3))),
         (2400, Response 2 (ComparisonOk (demo_comparison 2)))]) page)
   = Some (Some (cmp_body (demo_comparison 2)), Some (cmp_rows (demo_comparison 2)), Some ''year'')"
  by (simp add: ops cong: let_weak_cong)

theorem stale_response_overwrites_newer_witness:
  "map_option cachedChartData
     (run (loaded_trace @
        [(2000, ChangeSelect PeriodType ''year''),
         (2100, ChangeSelect PeriodType ''fy''),
         (2200, ChangeSelect PeriodType ''quarter''),
         (2300, Response 4 (DashboardOk (demo_data 4))),
         (2400, Response 3 (DashboardOk (demo_data 3)))]) page)
   \<noteq> Some (charts (demo_data 4))"
proof -
  have "charts (demo_data 3) \<noteq> charts (demo_data 4)"
    by (simp add: demo_data_def)
  then show ?thesis
    using stale_response_overwrites_newer by (auto simp add: option.map_sel split: option.splits)
qed


section \<open>Requests in flight\<close>

text \<open>
  Claim C3 (at most one live request per operation class, the outstanding one cancelled
  before a new one is issued) fails on the program. After the three period-type changes
  of above, dashboard requests 3 and 4 are both in flight, none of them aborted (no
  continuation of an aborted request is waiting), and only request 4 is known to
  \<^verbatim>\<open>pendingRequest\<close>. After two changes of the comparison type, comparison requests 2 and
  3 are both in flight: \<^verbatim>\<open>loadComparison\<close> never cancels.
\<close>

theorem two_requests_of_one_class_in_flight:
  "map_option (\<lambda>s. (live ApiDashboard s, pendingRequest s, microtasks s))
     (run (loaded_trace @
        [(2000, ChangeSelect PeriodType ''year''),
         (2100, ChangeSelect PeriodType ''fy''),
         (2200, ChangeSelect PeriodType ''quarter'')]) page)
   = Some ([3, 4], Some 4, [])
   \<and> map_option (\<lambda>s. (live ApiComparison s, pendingRequest s))
     (run (loaded_trace @
        [(2000, ChangeSelect ComparisonType ''fy''),
         (2100, ChangeSelect ComparisonType ''year'')]) page)
   = Some ([2, 3], None)"
  by (simp add: ops cong: let_weak_cong)

theorem two_requests_of_one_class_in_flight_witness:
  "map_option (\<lambda>s. length (live ApiDashboard s))
     (run (loaded_trace @
        [(2000, ChangeSelect PeriodType ''year''),
         (2100, ChangeSelect PeriodType ''fy''),
         (2200, ChangeSelect PeriodType ''quarter'')]) page)
   = Some 2"
  using two_requests_of_one_class_in_flight by (auto split: option.splits)

text \<open>What does hold: the continuation of an aborted request changes nothing on screen and
  nothing in the cache. It hides the loading indicator and clears \<^verbatim>\<open>pendingRequest\<close>.\<close>

lemma aborted_continuation_leaves_screen: "screen (drain s) = screen s"
proof -
  have "screen (fold run_aborted qs x) = screen x" for qs x
    by (induction qs arbitrary: x)
      (auto simp add: run_aborted_def after_load_def showToast_def hideFilterLoading_def
        screen_def split: kont.splits option.splits)
  then show ?thesis by (simp add: drain_def screen_def)
qed


section \<open>Gating on the loaded dataset\<close>

lemma applyFilters_gated:
  "\<not> dataLoaded s \<Longrightarrow> applyFilters s = s\<lparr>applyCalls := Suc (applyCalls s)\<rparr>"
  by (simp add: applyFilters_def applyFilters_k_def after_load_def)

lemma loadComparison_gated: "\<not> dataLoaded s \<Longrightarrow> loadComparison s = s"
  by (simp add: loadComparison_def)

text \<open>
  Claim C6 (no filter-apply, comparison-load or export request while the dataset is not
  loaded) fails on the program for export: \<^verbatim>\<open>applyFilters\<close> and \<^verbatim>\<open>loadComparison\<close> start
  with \<^verbatim>\<open>if (!dataLoaded) return\<close>, \<^verbatim>\<open>exportData\<close> does not. Whatever the state, with the
  flag false \<^verbatim>\<open>exportData\<close> posts the current filters to \<^verbatim>\<open>/api/export\<close>.
\<close>

theorem exportData_ignores_dataLoaded:
  "fetches (exportData (s\<lparr>dataLoaded := False\<rparr>))
     = fetches s @ [(ApiExport, PFilters (getFilters s))]
   \<and> inflight (exportData (s\<lparr>dataLoaded := False\<rparr>))
     = inflight s @ [(nextReq s, PFilters (getFilters s), KExport)]
   \<and> \<not> dataLoaded (exportData (s\<lparr>dataLoaded := False\<rparr>))"
  by (simp add: exportData_def fetch_def getFilters_def)

theorem exportData_ignores_dataLoaded_witness:
  "\<not> dataLoaded page
   \<and> fetches (exportData page) = [(ApiExport, PFilters (getFilters page))]
   \<and> inflight (exportData page) = [(0, PFilters (getFilters page), KExport)]"
proof -
  have "page\<lparr>dataLoaded := False\<rparr> = page" by (simp add: page_def init_def)
  then show ?thesis
    using exportData_ignores_dataLoaded [of page] by (simp add: page_def init_def)
qed

text \<open>The same in the event loop: the page opens, and the export button is clicked while
  the bulk load is still in flight.\<close>

lemma export_before_load:
  "map_option (\<lambda>s. (dataLoaded s, map fst (fetches s), live ApiExport s))
     (run [(0, DocumentReady), (500, ClickExport)] page)
   = Some (False, [ApiLoad, ApiExport], [1])"
  by (simp add: ops cong: let_weak_cong)


section \<open>Failed interactive requests\<close>





section \<open>Effects of the debounced handlers\<close>

lemma debouncedApplyFilters_fields:
  "timers (debouncedApplyFilters s) =
     filter (\<lambda>tm. Some (fst tm) \<noteq> filterDebounceTimer s) (timers s)
       @ [(nextTimer s, now s + 300, RunApplyFilters)]"
  "filterDebounceTimer (debouncedApplyFilters s) = Some (nextTimer s)"
  "nextTimer (debouncedApplyFilters s) = Suc (nextTimer s)"
  "fetches (debouncedApplyFilters s) = fetches s"
  "inflight (debouncedApplyFilters s) = inflight s"
  "dataLoaded (debouncedApplyFilters s) = dataLoaded s"
  "now (debouncedApplyFilters s) = now s"
  "microtasks (debouncedApplyFilters s) = microtasks s"
  "sels (debouncedApplyFilters s) = sels s"
  "msels (debouncedApplyFilters s) = msels s"
  "applyCalls (debouncedApplyFilters s) = applyCalls s"
  "pendingRequest (debouncedApplyFilters s) = pendingRequest s"
  "nextReq (debouncedApplyFilters s) = nextReq s"
  by (simp_all add: debouncedApplyFilters_def clearTimeout_def showFilterLoading_def
      setTimeout_def Let_def)

lemma debouncedLoadComparison_fields:
  "timers (debouncedLoadComparison s) =
     filter (\<lambda>tm. Some (fst tm) \<noteq> filterDebounceTimer s) (timers s)
       @ [(nextTimer s, now s + 300, RunLoadComparison)]"
  "filterDebounceTimer (debouncedLoadComparison s) = Some (nextTimer s)"
  "nextTimer (debouncedLoadComparison s) = Suc (nextTimer s)"
  "fetches (debouncedLoadComparison s) = fetches s"
  "inflight (debouncedLoadComparison s) = inflight s"
  "dataLoaded (debouncedLoadComparison s) = dataLoaded s"
  "now (debouncedLoadComparison s) = now s"
  "microtasks (debouncedLoadComparison s) = microtasks s"
  "sels (debouncedLoadComparison s) = sels s"
  "msels (debouncedLoadComparison s) = msels s"
  "applyCalls (debouncedLoadComparison s) = applyCalls s"
  "pendingRequest (debouncedLoadComparison s) = pendingRequest s"
  "nextReq (debouncedLoadComparison s) = nextReq s"
  by (simp_all add: debouncedLoadComparison_def clearTimeout_def showComparisonLoading_def
      setTimeout_def Let_def)

lemmas debounced_fields = debouncedApplyFilters_fields debouncedLoadComparison_fields


section \<open>Reachable states are tidy\<close>

lemma tidy0_ui:
  "tidy0 (showToast tt s) = tidy0 s"
  "tidy0 (set_hidden es b s) = tidy0 s"
  "tidy0 (upd_sel i f s) = tidy0 s"
  "tidy0 (upd_msel j g s) = tidy0 s"
  "tidy0 (renderChart ct d s) = tidy0 s"
  "tidy0 (renderIndiaMap m s) = tidy0 s"
  "tidy0 (showFilterLoading s) = tidy0 s"
  "tidy0 (hideFilterLoading s) = tidy0 s"
  "tidy0 (showComparisonLoading s) = tidy0 s"
  "tidy0 (hideComparisonLoading s) = tidy0 s"
  "tidy0 (after_load a s) = tidy0 s"
  "tidy0 (s\<lparr>now := t\<rparr>) = tidy0 s"
  "tidy0 (s\<lparr>currentMode := cm\<rparr>) = tidy0 s"
  "tidy0 (s\<lparr>activeChart := ac\<rparr>) = tidy0 s"
  "tidy0 (s\<lparr>chartDisplay := cd\<rparr>) = tidy0 s"
  "tidy0 (s\<lparr>pendingRequest := pr\<rparr>) = tidy0 s"
  "tidy0 (s\<lparr>loadingMessage := lm\<rparr>) = tidy0 s"
  "tidy0 (s\<lparr>refreshDisabled := rd\<rparr>) = tidy0 s"
  "tidy0 (s\<lparr>applyCalls := n\<rparr>) = tidy0 s"
  "tidy0 (s\<lparr>insightsPanel := ip\<rparr>) = tidy0 s"
  "tidy0 (s\<lparr>downloads := dl\<rparr>) = tidy0 s"
  "tidy0 (s\<lparr>comparisonTitle := ti\<rparr>) = tidy0 s"
  "tidy0 (s\<lparr>comparisonSubtitle := su\<rparr>) = tidy0 s"
  "tidy0 (s\<lparr>microtasks := mt\<rparr>) = tidy0 s"
  by (simp_all add: tidy0_def showToast_def set_hidden_def upd_sel_def upd_msel_def
      renderChart_def renderIndiaMap_def showFilterLoading_def hideFilterLoading_def
      showComparisonLoading_def hideComparisonLoading_def after_load_def split: option.splits)

lemma tidy0_fetch: "tidy0 s \<Longrightarrow> tidy0 (fetch p k s)"
  by (auto simp add: tidy0_def fetch_def less_Suc_eq)

lemma tidy0_abort: "tidy0 s \<Longrightarrow> tidy0 (abort c s)"
  by (auto simp add: tidy0_def abort_def split: option.splits)

lemma tidy0_clearTimeout: "tidy0 s \<Longrightarrow> tidy0 (clearTimeout t s)"
  by (auto simp add: tidy0_def clearTimeout_def)

lemma tidy0_setTimeout: "tidy0 s \<Longrightarrow> \<not> is_debounce a \<Longrightarrow> tidy0 (snd (setTimeout a d s))"
  by (auto simp add: tidy0_def setTimeout_def less_Suc_eq)

lemma tidy0_debounced:
  "tidy0 s \<Longrightarrow> tidy0 (debouncedApplyFilters s)"
  "tidy0 s \<Longrightarrow> tidy0 (debouncedLoadComparison s)"
  by (auto simp add: tidy0_def debounced_fields less_Suc_eq)

lemma tidy0_applyFilters_k: "tidy0 s \<Longrightarrow> tidy0 (applyFilters_k a s)"
  by (simp add: applyFilters_k_def Let_def tidy0_ui tidy0_fetch tidy0_abort split: option.splits)

lemma tidy0_applyFilters: "tidy0 s \<Longrightarrow> tidy0 (applyFilters s)"
  by (simp add: applyFilters_def tidy0_applyFilters_k)

lemma tidy0_loadComparison: "tidy0 s \<Longrightarrow> tidy0 (loadComparison s)"
  by (simp add: loadComparison_def Let_def tidy0_ui tidy0_fetch split: option.splits)

lemma tidy0_loadData: "tidy0 s \<Longrightarrow> tidy0 (loadData f rc s)"
proof -
  assume t: "tidy0 s"
  have "tidy0 (snd (setTimeout (AbortLoad c) 300000 x))" if "tidy0 x" for c x
    using that by (rule tidy0_setTimeout) simp
  with t show ?thesis
    by (simp add: loadData_def Let_def split_beta tidy0_ui tidy0_fetch)
qed

lemma tidy0_loadData_catch: "tidy0 s \<Longrightarrow> tidy0 (loadData_catch f rc ab err s)"
  by (simp add: loadData_catch_def tidy0_ui tidy0_setTimeout)

lemma tidy0_populateComparisonPeriods: "tidy0 (snd (populateComparisonPeriods s)) = tidy0 s"
  by (simp add: populateComparisonPeriods_def default_periods_def Let_def tidy0_ui
      split: option.splits)

lemma tidy0_populateFilters: "tidy0 (populateFilters fo s) = tidy0 s"
  by (simp add: populateFilters_def Let_def tidy0_ui tidy0_populateComparisonPeriods)

lemma tidy0_inflight_filter:
  "tidy0 s \<Longrightarrow> tidy0 (s\<lparr>inflight := filter P (inflight s)\<rparr>)"
  by (auto simp add: tidy0_def)

lemma tidy0_timers_filter:
  "tidy0 s \<Longrightarrow> tidy0 (s\<lparr>timers := filter P (timers s)\<rparr>)"
  by (auto simp add: tidy0_def)

lemma tidy0_run_timer: "tidy0 s \<Longrightarrow> tidy0 (run_timer a s)"
  by (cases a)
    (auto simp add: tidy0_applyFilters tidy0_loadComparison resumeLoad_def tidy0_loadData
      tidy0_ui abortLoad_def tidy0_loadData_catch tidy0_inflight_filter
      split: option.splits kont.splits)

lemma tidy0_resetFilters: "tidy0 s \<Longrightarrow> tidy0 (resetFilters s)"
  by (simp add: resetFilters_def Let_def tidy0_ui tidy0_debounced tidy0_applyFilters)

lemma tidy0_showChart: "tidy0 s \<Longrightarrow> tidy0 (showChart ct s)"
  by (simp add: showChart_def Let_def loadMapData_def loadChart_def tidy0_ui tidy0_fetch
      split: option.splits)

lemma tidy0_setMode: "tidy0 s \<Longrightarrow> tidy0 (setMode m s)"
  by (simp add: setMode_def Let_def tidy0_ui tidy0_applyFilters tidy0_loadComparison)

lemma tidy0_on_select_change: "tidy0 s \<Longrightarrow> tidy0 (on_select_change i s)"
proof (cases i)
  case ComparisonType
  assume t: "tidy0 s"
  obtain b s1 where p: "populateComparisonPeriods s = (b, s1)" by (cases "populateComparisonPeriods s")
  with tidy0_populateComparisonPeriods [of s] t have "tidy0 s1" by simp
  with p ComparisonType show ?thesis
    by (cases b) (simp_all add: onComparisonTypeChange_def tidy0_loadComparison)
qed (simp_all add: onPeriodTypeChange_def Let_def tidy0_ui tidy0_applyFilters tidy0_debounced)

lemma tidy0_on_multi_change: "tidy0 s \<Longrightarrow> tidy0 (on_multi_change i s)"
  by (cases i) (simp_all add: tidy0_debounced)

lemma tidy0_loadData_settled:
  assumes "tidy0 s" and "loadData_settled f rc tid r s = Some x"
  shows "tidy0 x"
proof (cases r)
  case (LoadOk message fo)
  have "tidy0 (clearTimeout (Some tid) s)" using assms(1) by (rule tidy0_clearTimeout)
  then have "tidy0 ((clearTimeout (Some tid) s)\<lparr>dataLoaded := True, filterOptions := Some fo\<rparr>)"
    by (simp add: tidy0_def)
  then have "tidy0 (loadData_success message fo (clearTimeout (Some tid) s))"
    by (simp add: loadData_success_def Let_def tidy0_ui tidy0_populateFilters tidy0_applyFilters_k)
  with assms(2) LoadOk show ?thesis by (simp add: loadData_settled_def)
next
  case (Refused e)
  with assms show ?thesis
    by (auto simp add: loadData_settled_def tidy0_loadData_catch tidy0_clearTimeout)
next
  case (Failed m)
  with assms show ?thesis by (auto simp add: loadData_settled_def tidy0_loadData_catch)
qed (use assms in \<open>simp_all add: loadData_settled_def\<close>)

lemma tidy0_applyFilters_success: "tidy0 (applyFilters_success f d s) = tidy0 s"
  by (simp add: tidy0_def applyFilters_success_def hideFilterLoading_def renderIndiaMap_def
      renderChart_def Let_def split: option.splits)

lemma tidy0_applyFilters_settled:
  "tidy0 s \<Longrightarrow> applyFilters_settled f a r s = Some x \<Longrightarrow> tidy0 x"
  by (cases r) (auto simp add: applyFilters_settled_def tidy0_ui tidy0_applyFilters_success)

lemma tidy0_refreshInsights_settled:
  "tidy0 s \<Longrightarrow> refreshInsights_settled r s = Some x \<Longrightarrow> tidy0 x"
  by (cases r) (auto simp add: refreshInsights_settled_def tidy0_ui)

lemma tidy0_loadChart_settled:
  "tidy0 s \<Longrightarrow> loadChart_settled ct r s = Some x \<Longrightarrow> tidy0 x"
  by (cases r) (auto simp add: loadChart_settled_def tidy0_ui split: option.splits)

lemma tidy0_loadMapData_settled:
  "tidy0 s \<Longrightarrow> loadMapData_settled r s = Some x \<Longrightarrow> tidy0 x"
  by (cases r) (auto simp add: loadMapData_settled_def tidy0_ui split: option.splits)

lemma tidy0_loadComparison_settled:
  "tidy0 s \<Longrightarrow> loadComparison_settled r s = Some x \<Longrightarrow> tidy0 x"
proof -
  have "tidy0 (y\<lparr>comparisonKpis := a, comparisonChart := b, comparisonTable := c\<rparr>) = tidy0 y"
    for y a b c
    by (simp add: tidy0_def)
  then show "tidy0 s \<Longrightarrow> loadComparison_settled r s = Some x \<Longrightarrow> tidy0 x"
    by (cases r) (auto simp add: loadComparison_settled_def tidy0_ui)
qed

lemma tidy0_exportData_settled:
  "tidy0 s \<Longrightarrow> exportData_settled r s = Some x \<Longrightarrow> tidy0 x"
  by (cases r) (auto simp add: exportData_settled_def tidy0_ui)

lemma tidy0_settle: "tidy0 s \<Longrightarrow> settle k r s = Some x \<Longrightarrow> tidy0 x"
  by (cases k)
    (auto intro: tidy0_loadData_settled tidy0_applyFilters_settled tidy0_refreshInsights_settled
      tidy0_loadChart_settled tidy0_loadMapData_settled tidy0_loadComparison_settled
      tidy0_exportData_settled)

lemma tidy0_handle: "tidy0 s \<Longrightarrow> handle ev s = Some x \<Longrightarrow> tidy0 x"
proof (cases ev)
  case (TimerFires i)
  assume "tidy0 s" "handle ev s = Some x"
  with TimerFires show ?thesis
    by (auto simp add: fire_def tidy0_run_timer tidy0_timers_filter split: option.splits if_splits)
next
  case (Response c r)
  assume "tidy0 s" "handle ev s = Some x"
  with Response show ?thesis
    by (auto simp add: respond_def split: option.splits
        intro: tidy0_settle [OF tidy0_inflight_filter])
qed (auto simp add: tidy0_loadData tidy0_ui exportData_def refreshInsights_def tidy0_fetch
      tidy0_on_select_change tidy0_on_multi_change tidy0_setMode tidy0_showChart
      tidy0_resetFilters)

lemma run_aborted_tidy0:
  "tidy0 (run_aborted q y) = tidy0 y"
  "microtasks (run_aborted q y) = microtasks y"
  by (simp_all add: run_aborted_def tidy0_def after_load_def showToast_def
      hideFilterLoading_def split: kont.splits option.splits)

lemma fold_run_aborted_tidy0:
  "tidy0 (fold run_aborted qs y) = tidy0 y"
  "microtasks (fold run_aborted qs y) = microtasks y"
  by (induction qs arbitrary: y) (simp_all add: run_aborted_tidy0)

lemma tidy_drain: "tidy0 x \<Longrightarrow> tidy (drain x)"
  by (simp add: tidy_def drain_def fold_run_aborted_tidy0 tidy0_ui)

lemma tidy_step:
  assumes "tidy0 s" and "step te s = Some s'"
  shows "tidy s'"
proof -
  from assms(2) obtain z where z: "handle (snd te) (s\<lparr>now := fst te\<rparr>) = Some z" "s' = drain z"
    by (auto simp add: step_def Let_def split: if_splits)
  from assms(1) have "tidy0 (s\<lparr>now := fst te\<rparr>)" by (simp add: tidy0_ui)
  from tidy0_handle [OF this z(1)] z(2) show ?thesis by (simp add: tidy_drain)
qed

text \<open>Every state the event loop reaches from a freshly loaded page is tidy.\<close>

lemma tidy_run: "tidy s \<Longrightarrow> run evs s = Some s' \<Longrightarrow> tidy s'"
proof (induction evs arbitrary: s)
  case Nil
  then show ?case by simp
next
  case (Cons te evs)
  then obtain s1 where s1: "step te s = Some s1" "run evs s1 = Some s'"
    by (auto split: option.splits)
  from Cons.prems(1) have "tidy0 s" by (simp add: tidy_def)
  from tidy_step [OF this s1(1)] Cons.IH s1(2) show ?case by blast
qed

lemma tidy_init: "tidy (init a b c)"
  by (simp add: tidy_def tidy0_def init_def)

lemma reachable_tidy: "run evs (init a b c) = Some s \<Longrightarrow> tidy s"
  using tidy_run [OF tidy_init] by blast


section \<open>The loaded-dataset flag\<close>

lemma applyFilters_k_flag: "dataLoaded (applyFilters_k after s) = dataLoaded s"
  by (simp add: applyFilters_k_def fetch_def abort_def after_load_def showToast_def Let_def
      split: option.splits)

lemma loadComparison_flag: "dataLoaded (loadComparison s) = dataLoaded s"
  by (simp add: loadComparison_def fetch_def Let_def split: option.splits)

lemma loadData_flag: "dataLoaded (loadData f rc s) = dataLoaded s"
  by (simp add: loadData_def fetch_def setTimeout_def set_hidden_def Let_def)

lemma loadData_catch_flag: "dataLoaded (loadData_catch f rc ab err s) = dataLoaded s"
  by (simp add: loadData_catch_def setTimeout_def set_hidden_def showToast_def)

lemma populateComparisonPeriods_flag:
  "dataLoaded (snd (populateComparisonPeriods s)) = dataLoaded s"
  by (simp add: populateComparisonPeriods_def default_periods_def upd_sel_def Let_def
      split: option.splits)

lemma onComparisonTypeChange_flag: "dataLoaded (onComparisonTypeChange s) = dataLoaded s"
proof (cases "populateComparisonPeriods s")
  case (Pair b s1)
  with populateComparisonPeriods_flag [of s] have "dataLoaded s1 = dataLoaded s" by simp
  with Pair show ?thesis
    by (cases b) (simp_all add: onComparisonTypeChange_def loadComparison_flag)
qed

lemma onPeriodTypeChange_flag: "dataLoaded (onPeriodTypeChange s) = dataLoaded s"
  by (simp add: onPeriodTypeChange_def applyFilters_def applyFilters_k_flag set_hidden_def Let_def)

lemma run_timer_flag: "dataLoaded (run_timer a s) = dataLoaded s"
  by (cases a)
    (simp_all add: applyFilters_def applyFilters_k_flag loadComparison_flag resumeLoad_def
      loadData_flag abortLoad_def loadData_catch_flag split: option.splits kont.splits)

lemma drain_flag: "dataLoaded (drain s) = dataLoaded s"
proof -
  have "dataLoaded (fold run_aborted qs x) = dataLoaded x" for qs x
    by (induction qs arbitrary: x)
      (auto simp add: run_aborted_def after_load_def showToast_def hideFilterLoading_def
        split: kont.splits option.splits)
  then show ?thesis by (simp add: drain_def)
qed

lemma settle_flag:
  assumes "settle k r s = Some s'" and "\<not> dataLoaded s" and "dataLoaded s'"
  shows "\<exists>message fo. r = LoadOk message fo"
  using assms
  by (cases k; cases r)
    (auto simp add: loadData_settled_def loadData_catch_flag applyFilters_settled_def
      applyFilters_success_def after_load_def showToast_def hideFilterLoading_def
      renderIndiaMap_def renderChart_def refreshInsights_settled_def loadChart_settled_def
      loadMapData_settled_def loadComparison_settled_def hideComparisonLoading_def
      exportData_settled_def set_hidden_def clearTimeout_def loadData_success_def
      applyFilters_k_flag Let_def
      split: option.splits if_splits)

text \<open>The flag \<^verbatim>\<open>dataLoaded\<close> is raised by nothing but a successful response of
  \<^verbatim>\<open>/api/load\<close>.\<close>

lemma dataLoaded_only_by_load:
  assumes "step (t, ev) s = Some s'" and "\<not> dataLoaded s" and "dataLoaded s'"
  shows "\<exists>c message fo. ev = Response c (LoadOk message fo)"
proof -
  from assms(1) obtain x where x: "handle ev (s\<lparr>now := t\<rparr>) = Some x" and s': "s' = drain x"
    by (auto simp add: step_def Let_def split: if_splits)
  from s' assms(3) have dx: "dataLoaded x" by (simp add: drain_flag)
  from x have xe: "x = the (handle ev (s\<lparr>now := t\<rparr>))" by simp
  have reset: "dataLoaded (resetFilters y) = dataLoaded y" for y
    by (simp add: resetFilters_def Let_def showToast_def applyFilters_def applyFilters_k_flag
        debounced_fields upd_sel_def upd_msel_def set_hidden_def)
  have chart: "dataLoaded (showChart chartType y) = dataLoaded y" for chartType y
    by (simp add: showChart_def renderIndiaMap_def renderChart_def loadMapData_def
        loadChart_def fetch_def set_hidden_def Let_def split: option.splits)
  have mode: "dataLoaded (setMode m y) = dataLoaded y" for m y
    by (simp add: setMode_def applyFilters_def applyFilters_k_flag loadComparison_flag
        set_hidden_def Let_def)
  have sel: "dataLoaded (on_select_change i y) = dataLoaded y" for i y
    by (cases i) (simp_all add: onPeriodTypeChange_flag onComparisonTypeChange_flag debounced_fields)
  have msel: "dataLoaded (on_multi_change i y) = dataLoaded y" for i y
    by (cases i) (simp_all add: debounced_fields)
  show ?thesis
  proof (cases ev)
    case (Response c r)
    with x obtain k where
      "settle k r (s\<lparr>now := t, inflight := filter (\<lambda>q. fst q \<noteq> c) (inflight s)\<rparr>) = Some x"
      by (auto simp add: respond_def split: option.splits)
    from settle_flag [OF this _ dx] assms(2) Response show ?thesis by simp
  next
    case (TimerFires i)
    with x obtain a y where "x = run_timer a y" "dataLoaded y = dataLoaded s"
      by (auto simp add: fire_def split: option.splits if_splits)
    with dx assms(2) show ?thesis by (simp add: run_timer_flag)
  next
    case (ChangeSelect i v)
    with dx assms(2) show ?thesis by (simp add: xe sel upd_sel_def)
  next
    case (ChangeMulti i vs)
    with dx assms(2) show ?thesis by (simp add: xe msel upd_msel_def)
  next
    case DocumentReady
    with dx assms(2) show ?thesis by (simp add: xe loadData_flag)
  next
    case ClickRefresh
    with dx assms(2) show ?thesis by (simp add: xe loadData_flag split: if_splits)
  next
    case ClickExport
    with dx assms(2) show ?thesis by (simp add: xe exportData_def fetch_def)
  next
    case (SetMode m)
    with dx assms(2) show ?thesis by (simp add: xe mode)
  next
    case (ShowChart chartType)
    with dx assms(2) show ?thesis by (simp add: xe chart)
  next
    case RefreshInsights
    with dx assms(2) show ?thesis by (simp add: xe refreshInsights_def fetch_def)
  next
    case ResetFilters
    with dx assms(2) show ?thesis by (simp add: xe reset)
  qed
qed


section \<open>The map tab\<close>

lemma find_append_None: "find P xs = None \<Longrightarrow> find P (xs @ ys) = find P ys"
  by (induction xs) (auto split: if_splits)

text \<open>
  Claim C8, as stated, has the result of the on-demand map fetch stored in the map slot
  of the cache. The program only renders it: after the map response the cache still has
  no map entry, and showing the map tab again fetches again.
\<close>

theorem map_response_is_not_cached:
  "map_option (\<lambda>s. (map_of (cachedChartData s) ''map'', cachedChartData s = charts (demo_data 1),
                     mapMarkers s, map fst (fetches s)))
     (run (loaded_trace @
        [(2000, ShowChart ''map''),
         (2100, Response 2 (MapOk (Some demo_map))),
         (2200, ShowChart ''map'')]) page)
   = Some (None, True, districts_of (Some demo_map), [ApiLoad, ApiDashboard, ApiMap, ApiMap])"
  by (simp add: ops cong: let_weak_cong)

text \<open>
  Claim C8, amended: whenever the active chart is switched to the map (between two tasks,
  in a tidy state) and the cache has no map series, a dedicated map fetch with the current filters is issued; its
  successful result is drawn on the map and is not stored: the whole cache, every chart
  type's entry and the absent map slot alike, is left unchanged.
\<close>

theorem map_fetch_leaves_cache:
  assumes "map_of (cachedChartData s) ''map'' = None" and "tidy s"
  shows "fetches (showChart ''map'' s) = fetches s @ [(ApiMap, PFilters (getFilters s))]
     \<and> cachedChartData (showChart ''map'' s) = cachedChartData s
     \<and> (\<exists>s'. respond (nextReq s) (MapOk (Some d)) (showChart ''map'' s) = Some s'
           \<and> cachedChartData s' = cachedChartData s
           \<and> mapMarkers s' = districts_of (Some d)
           \<and> fetches s' = fetches s @ [(ApiMap, PFilters (getFilters s))])"
proof -
  have f: "find (\<lambda>q. fst q = nextReq s) (inflight s) = None"
    using assms(2) by (auto simp add: find_None_iff tidy_def tidy0_def)
  have sc: "showChart ''map'' s =
      loadMapData (getFilters s)
        (set_hidden [MapContainer] False (set_hidden [ChartDisplay] True (s\<lparr>activeChart := ''map''\<rparr>)))"
    using assms(1) by (simp add: showChart_def Let_def set_hidden_def getFilters_def)
  show ?thesis
    unfolding sc using f
    by (simp add: loadMapData_def fetch_def set_hidden_def respond_def find_append_None
        loadMapData_settled_def renderIndiaMap_def getFilters_def)
qed

theorem map_fetch_leaves_cache_witness:
  "fetches (showChart ''map'' page) = [(ApiMap, PFilters (getFilters page))]
   \<and> (\<exists>s'. respond 0 (MapOk (Some demo_map)) (showChart ''map'' page) = Some s'
         \<and> cachedChartData s' = [] \<and> mapMarkers s' = districts_of (Some demo_map))"
proof -
  have a: "map_of (cachedChartData page) ''map'' = None" by (simp add: page_def init_def)
  have b: "tidy page" by (simp add: page_def tidy_init)
  have c: "fetches page = []" "cachedChartData page = []" "nextReq page = 0"
    by (simp_all add: page_def init_def)
  show ?thesis
    using map_fetch_leaves_cache [OF a b, of demo_map] c by auto
qed


section \<open>Bulk load: bounded retry\<close>

text \<open>
  Claim C5 (bounded retry on bulk-load timeout). The \<^verbatim>\<open>catch\<close> block of \<^verbatim>\<open>loadData\<close> goes on
  to a retry exactly when fewer than 3 retries were made and the error is the abort of
  the timeout; the retry is the action of a timer due 2000 ms later, carries the retry
  count plus one, and no request is issued before that timer fires. Every other failure
  ends the load: failure toast, welcome screen, overlay hidden. A rejected fetch or a
  body that says \<open>success: false\<close> never counts as a timeout; only the timeout timer
  does. When the load times out 4 times in a row, 4 load requests are issued in all (3
  retries), nothing is left pending, and the page shows the welcome screen and the
  failure toast; the first retry cannot fire before its 2 seconds have passed.
\<close>

theorem bulk_load_retry_is_bounded:
  "timers (loadData_catch f rc ab err s) =
     (if rc < 3 \<and> ab then timers s @ [(nextTimer s, now s + 2000, ResumeLoad f (rc + 1))]
      else timers s)
   \<and> fetches (loadData_catch f rc ab err s) = fetches s
   \<and> inflight (loadData_catch f rc ab err s) = inflight s
   \<and> (\<not> (rc < 3 \<and> ab) \<longrightarrow>
        toasts (loadData_catch f rc ab err s) = toasts s @ [ToastLoadFailed err]
        \<and> \<not> hidden (loadData_catch f rc ab err s) WelcomeScreen
        \<and> hidden (loadData_catch f rc ab err s) LoadingOverlay)
   \<and> loadData_settled f rc tid (Failed m) s = Some (loadData_catch f rc False (ErrorMessage m) s)
   \<and> loadData_settled f rc tid (Refused e) s =
        Some (loadData_catch f rc False (ErrorMessage (error_text e)) (clearTimeout (Some tid) s))
   \<and> (find (\<lambda>q. fst q = c) (inflight s) = Some (c, p, KLoad f rc tid) \<longrightarrow>
        abortLoad c s = loadData_catch f rc True TimedOut
                          (s\<lparr>inflight := filter (\<lambda>q. fst q \<noteq> c) (inflight s)\<rparr>))
   \<and> fetches (resumeLoad f (rc + 1) s) = fetches s @ [(ApiLoad, PLoad f)]
   \<and> inflight (resumeLoad f (rc + 1) s) =
        inflight s @ [(nextReq s, PLoad f, KLoad f (rc + 1) (nextTimer s))]
   \<and> map_option (\<lambda>s. (map fst (fetches s), timers s, inflight s, toasts s,
                       hidden s WelcomeScreen, hidden s LoadingOverlay, dataLoaded s))
        (run four_timeouts page)
      = Some ([ApiLoad, ApiLoad, ApiLoad, ApiLoad], [], [], [ToastLoadFailed TimedOut],
              False, True, False)
   \<and> run (take 2 four_timeouts @ [(301999, TimerFires 1)]) page = None"
proof -
  have scenario: "map_option (\<lambda>s. (map fst (fetches s), timers s, inflight s, toasts s,
                       hidden s WelcomeScreen, hidden s LoadingOverlay, dataLoaded s))
        (run four_timeouts page)
      = Some ([ApiLoad, ApiLoad, ApiLoad, ApiLoad], [], [], [ToastLoadFailed TimedOut],
              False, True, False)"
    by (simp add: ops four_timeouts_def cong: let_weak_cong)
  have early: "run (take 2 four_timeouts @ [(301999, TimerFires 1)]) page = None"
    by (simp add: ops four_timeouts_def cong: let_weak_cong)
  have catch: "timers (loadData_catch f rc ab err s) =
       (if rc < 3 \<and> ab then timers s @ [(nextTimer s, now s + 2000, ResumeLoad f (rc + 1))]
        else timers s)
     \<and> fetches (loadData_catch f rc ab err s) = fetches s
     \<and> inflight (loadData_catch f rc ab err s) = inflight s
     \<and> (\<not> (rc < 3 \<and> ab) \<longrightarrow>
          toasts (loadData_catch f rc ab err s) = toasts s @ [ToastLoadFailed err]
          \<and> \<not> hidden (loadData_catch f rc ab err s) WelcomeScreen
          \<and> hidden (loadData_catch f rc ab err s) LoadingOverlay)"
    by (simp add: loadData_catch_def setTimeout_def showToast_def set_hidden_def)
  have settled: "loadData_settled f rc tid (Failed m) s = Some (loadData_catch f rc False (ErrorMessage m) s)"
    "loadData_settled f rc tid (Refused e) s =
        Some (loadData_catch f rc False (ErrorMessage (error_text e)) (clearTimeout (Some tid) s))"
    by (simp_all add: loadData_settled_def)
  have aborted: "find (\<lambda>q. fst q = c) (inflight s) = Some (c, p, KLoad f rc tid) \<longrightarrow>
        abortLoad c s = loadData_catch f rc True TimedOut
                          (s\<lparr>inflight := filter (\<lambda>q. fst q \<noteq> c) (inflight s)\<rparr>)"
    by (simp add: abortLoad_def)
  have resume: "fetches (resumeLoad f (rc + 1) s) = fetches s @ [(ApiLoad, PLoad f)]"
    "inflight (resumeLoad f (rc + 1) s) =
        inflight s @ [(nextReq s, PLoad f, KLoad f (rc + 1) (nextTimer s))]"
    by (simp_all add: resumeLoad_def loadData_def setTimeout_def fetch_def set_hidden_def Let_def)
  show ?thesis
    using scenario early catch settled aborted resume by blast
qed

theorem bulk_load_retry_is_bounded_witness:
  "timers (loadData_catch False 2 True TimedOut page) = [(0, 2000, ResumeLoad False 3)]
   \<and> timers (loadData_catch False 3 True TimedOut page) = []
   \<and> toasts (loadData_catch False 3 True TimedOut page) = [ToastLoadFailed TimedOut]
   \<and> timers (loadData_catch False 0 False (ErrorMessage ''boom'') page) = []
   \<and> toasts (loadData_catch False 0 False (ErrorMessage ''boom'') page)
       = [ToastLoadFailed (ErrorMessage ''boom'')]"
proof -
  have p: "timers page = []" "toasts page = []" "nextTimer page = 0" "now page = 0"
    by (simp_all add: page_def init_def)
  show ?thesis
    using bulk_load_retry_is_bounded [of False 2 True TimedOut page]
      bulk_load_retry_is_bounded [of False 3 True TimedOut page]
      bulk_load_retry_is_bounded [of False 0 False "ErrorMessage ''boom''" page] p
    by simp
qed


section \<open>Debounce\<close>




lemma notifies_not_timer: "notifies e = Some a \<Longrightarrow> \<not> is_timer_event e"
  by (cases e) simp_all











section \<open>Cache coherence on tab switch\<close>








section \<open>Reset\<close>

lemma applyFilters_fields:
  "sels (applyFilters s) = sels s"
  "msels (applyFilters s) = msels s"
  "timers (applyFilters s) = timers s"
  "applyCalls (applyFilters s) = Suc (applyCalls s)"
  "fetches (applyFilters s) =
     fetches s @ (if dataLoaded s then [(ApiDashboard, PFilters (getFilters s))] else [])"
  by (simp_all add: applyFilters_def applyFilters_k_def fetch_def abort_def getFilters_def
      after_load_def Let_def split: option.splits)

text \<open>\<^verbatim>\<open>resetFilters\<close>, seen through the controls, the timers, the request log and the
  count of \<^verbatim>\<open>applyFilters\<close> calls.\<close>

lemma resetFilters_sels:
  "sels (resetFilters s) = (sels s)
     (PeriodType := set_val [] (sels s PeriodType), Year := set_val [] (sels s Year),
      Fy := set_val [] (sels s Fy), Quarter := set_val [] (sels s Quarter),
      ComparisonType := set_val ''year'' (sels s ComparisonType),
      Period1 := set_val [] (sels s Period1), Period2 := set_val [] (sels s Period2),
      ComparisonDimension := set_val ''Overall'' (sels s ComparisonDimension))"
  by (simp add: resetFilters_def Let_def showToast_def applyFilters_fields debounced_fields
      upd_sel_def upd_msel_def set_hidden_def)

lemma resetFilters_msels: "msels (resetFilters s) i = clear_mval (msels s i)"
  by (cases i)
    (simp_all add: resetFilters_def Let_def showToast_def applyFilters_fields debounced_fields
      upd_sel_def upd_msel_def set_hidden_def)

lemma resetFilters_calls:
  "applyCalls (resetFilters s) = Suc (applyCalls s)"
  "map fst (fetches (resetFilters s)) = map fst (fetches s) @ (if dataLoaded s then [ApiDashboard] else [])"
  by (simp_all add: resetFilters_def Let_def showToast_def applyFilters_fields debounced_fields
      upd_sel_def upd_msel_def set_hidden_def)

lemma resetFilters_timers:
  "timers (resetFilters s) =
     filter (\<lambda>tm. fst tm \<notin> {nextTimer s ..< nextTimer s + 9}
                  \<and> Some (fst tm) \<noteq> filterDebounceTimer s) (timers s)
       @ [(nextTimer s + 9, now s + 300, RunLoadComparison)]"
proof -
  have "m \<notin> {n ..< n + 9} \<longleftrightarrow>
      m \<noteq> n + 8 \<and> m \<noteq> n + 7 \<and> m \<noteq> n + 6 \<and> m \<noteq> n + 5 \<and> m \<noteq> n + 4 \<and> m \<noteq> n + 3
      \<and> m \<noteq> n + 2 \<and> m \<noteq> n + 1 \<and> m \<noteq> n" for m n :: nat
    by auto
  then show ?thesis
    by (simp add: resetFilters_def Let_def showToast_def applyFilters_fields debounced_fields
        upd_sel_def upd_msel_def set_hidden_def conj_commute conj_left_commute eval_nat_numeral
        cong: conj_cong)
qed

text \<open>
  Claim C10 (reset idempotence and single trigger). Whatever the state, a second reset
  leaves every control as the first reset left it, so the FilterSelection is the same;
  when the page offers the default options, that selection is the default one: period
  type, year, financial year and quarter on their empty option, every multi-select
  empty, comparison type \<open>year\<close>, dimension \<open>Overall\<close>. Each reset call enters
  \<^verbatim>\<open>applyFilters\<close> exactly once (with the dataset loaded: exactly one \<^verbatim>\<open>/api/dashboard\<close>
  request), and leaves no scheduled \<^verbatim>\<open>applyFilters\<close> of its own behind: the one timer it
  leaves runs \<^verbatim>\<open>loadComparison\<close>, and from a tidy state no scheduled \<^verbatim>\<open>applyFilters\<close> is
  pending after the reset.
\<close>

theorem resetFilters_idempotent_single_apply:
  "sels (resetFilters (resetFilters s)) = sels (resetFilters s)
   \<and> msels (resetFilters (resetFilters s)) = msels (resetFilters s)
   \<and> getFilters (resetFilters (resetFilters s)) = getFilters (resetFilters s)
   \<and> applyCalls (resetFilters s) = Suc (applyCalls s)
   \<and> applyCalls (resetFilters (resetFilters s)) = Suc (Suc (applyCalls s))
   \<and> map fst (fetches (resetFilters s))
       = map fst (fetches s) @ (if dataLoaded s then [ApiDashboard] else [])
   \<and> (\<forall>tm \<in> set (timers (resetFilters s)).
        snd (snd tm) = RunApplyFilters \<longrightarrow> tm \<in> set (timers s) \<and> Some (fst tm) \<noteq> filterDebounceTimer s)
   \<and> (tidy s \<longrightarrow> (\<forall>tm \<in> set (timers (resetFilters s)). snd (snd tm) \<noteq> RunApplyFilters))
   \<and> ([] \<in> set (opts (sels s PeriodType)) \<and> [] \<in> set (opts (sels s Year))
        \<and> [] \<in> set (opts (sels s Fy)) \<and> [] \<in> set (opts (sels s Quarter))
        \<and> ''year'' \<in> set (opts (sels s ComparisonType))
        \<and> ''Overall'' \<in> set (opts (sels s ComparisonDimension)) \<longrightarrow>
      getFilters (resetFilters s)
        = \<lparr>period_type = Some [], year = Some [], fy = Some [], quarter = Some [],
           states = [], districts = [], rbms = [], bdms = [], branches = [], brands = []\<rparr>
      \<and> val (sels (resetFilters s) ComparisonType) = Some ''year''
      \<and> val (sels (resetFilters s) ComparisonDimension) = Some ''Overall''
      \<and> (\<forall>i. mval (msels (resetFilters s) i) = []))"
proof -
  have i1: "sels (resetFilters (resetFilters s)) = sels (resetFilters s)"
    by (simp add: resetFilters_sels [of "resetFilters s"])
      (simp add: resetFilters_sels set_val_def)
  have i2: "msels (resetFilters (resetFilters s)) = msels (resetFilters s)"
    by (rule ext) (simp add: resetFilters_msels clear_mval_def)
  have i3: "getFilters (resetFilters (resetFilters s)) = getFilters (resetFilters s)"
    using i1 i2 by (simp add: getFilters_def)
  have t: "\<forall>tm \<in> set (timers (resetFilters s)).
        snd (snd tm) = RunApplyFilters \<longrightarrow> tm \<in> set (timers s) \<and> Some (fst tm) \<noteq> filterDebounceTimer s"
    by (auto simp add: resetFilters_timers)
  have t': "\<forall>tm \<in> set (timers (resetFilters s)). snd (snd tm) \<noteq> RunApplyFilters" if "tidy s"
  proof
    fix tm assume m: "tm \<in> set (timers (resetFilters s))"
    show "snd (snd tm) \<noteq> RunApplyFilters"
    proof
      assume a: "snd (snd tm) = RunApplyFilters"
      with t m have "tm \<in> set (timers s)" "Some (fst tm) \<noteq> filterDebounceTimer s" by auto
      moreover from a have "is_debounce (snd (snd tm))" by simp
      ultimately show False using that by (auto simp add: tidy_def tidy0_def)
    qed
  qed
  have d: "getFilters (resetFilters s)
        = \<lparr>period_type = Some [], year = Some [], fy = Some [], quarter = Some [],
           states = [], districts = [], rbms = [], bdms = [], branches = [], brands = []\<rparr>
      \<and> val (sels (resetFilters s) ComparisonType) = Some ''year''
      \<and> val (sels (resetFilters s) ComparisonDimension) = Some ''Overall''
      \<and> (\<forall>i. mval (msels (resetFilters s) i) = [])"
    if "[] \<in> set (opts (sels s PeriodType))" "[] \<in> set (opts (sels s Year))"
       "[] \<in> set (opts (sels s Fy))" "[] \<in> set (opts (sels s Quarter))"
       "''year'' \<in> set (opts (sels s ComparisonType))"
       "''Overall'' \<in> set (opts (sels s ComparisonDimension))"
    using that
    by (simp add: getFilters_def resetFilters_sels resetFilters_msels set_val_def clear_mval_def)
  show ?thesis
    using i1 i2 i3 t t' d resetFilters_calls [of s] resetFilters_calls(1) [of "resetFilters s"]
    by simp
qed

theorem resetFilters_idempotent_single_apply_witness:
  "getFilters (resetFilters (resetFilters page)) = getFilters (resetFilters page)
   \<and> getFilters (resetFilters page)
        = \<lparr>period_type = Some [], year = Some [], fy = Some [], quarter = Some [],
           states = [], districts = [], rbms = [], bdms = [], branches = [], brands = []\<rparr>
   \<and> applyCalls (resetFilters page) = 1
   \<and> applyCalls (resetFilters (resetFilters page)) = 2
   \<and> fetches (resetFilters page) = []"
proof -
  have o: "[] \<in> set (opts (sels page PeriodType))" "[] \<in> set (opts (sels page Year))"
    "[] \<in> set (opts (sels page Fy))" "[] \<in> set (opts (sels page Quarter))"
    "''year'' \<in> set (opts (sels page ComparisonType))"
    "''Overall'' \<in> set (opts (sels page ComparisonDimension))"
    by (simp_all add: page_def init_def page_sels_def)
  have p: "applyCalls page = 0" "fetches page = []" "\<not> dataLoaded page"
    by (simp_all add: page_def init_def)
  show ?thesis
    using resetFilters_idempotent_single_apply [of page] o p by simp
qed


end
